theory Spec2Isabelle
  imports Complex_Main
begin

section \<open>Coordinate calculations: numeric model\<close>

text \<open>
  The C++ type \<open>double\<close> is modelled by \<open>real\<close>: every finite value is exact and the
  arithmetic operations, \<open>sqrt\<close>, \<open>sin\<close>, \<open>cos\<close>, \<open>tan\<close>, \<open>asin\<close>, \<open>acos\<close>, \<open>atan\<close> are the
  mathematical ones (no rounding, no overflow). An operation without a real value is
  written out where a statement of this theory depends on it: the quotient in
  \<open>IsBetween\<close>, the normalisation and the \<open>acos\<close> in the distance to a great circle, and
  the estimate in the loop of \<open>FromCartesian\<close> give a value of the type \<open>double\<close> below,
  with the infinities and NaN of IEEE arithmetic.
  In the other functions a zero divisor is outside the model (HOL gives the quotient 0);
  the concrete inputs used below do not meet one.
\<close>

datatype double = Finite real | PosInf | NegInf | NaN

definition PI :: real where
  "PI = 3.14159265358979"

definition EPSILON :: real where
  "EPSILON = 5 / 10 ^ 14"

record CEllipsoid =
  m_a :: real
  m_fInv :: real

definition m_Ellipsoid :: CEllipsoid where
  "m_Ellipsoid = \<lparr>m_a = 6378137, m_fInv = 298.257223563\<rparr>"

definition m_Radius :: real where
  "m_Radius = 6366707.01896486"

definition m_Deg2Rad :: real where
  "m_Deg2Rad = 1.74532925199433 / 100"

definition m_strZoneLetters :: string where
  "m_strZoneLetters = ''CDEFGHJKLMNPQRSTUVWX''"

record CLatLon =
  m_Latitude :: real
  m_Longitude :: real

record CCartesianCoord =
  m_x :: real
  m_y :: real
  m_z :: real

subsection \<open>Library functions of C and C++\<close>

text \<open>Conversion of a \<open>double\<close> to \<open>int\<close>: the fraction is discarded (towards zero).\<close>

definition double_to_int :: "real \<Rightarrow> int" where
  "double_to_int x = (if 0 \<le> x then \<lfloor>x\<rfloor> else \<lceil>x\<rceil>)"

text \<open>\<open>fmod x y\<close>: the remainder of \<open>x / y\<close> with the sign of \<open>x\<close>.\<close>

definition fmod :: "real \<Rightarrow> real \<Rightarrow> real" where
  "fmod x y = x - y * of_int (double_to_int (x / y))"

text \<open>The operator \<open>%\<close> on \<open>int\<close>: the quotient is truncated towards zero.\<close>

definition int_rem :: "int \<Rightarrow> int \<Rightarrow> int" where
  "int_rem a b = a - b * double_to_int (of_int a / of_int b)"

text \<open>\<open>atan2 y x\<close>: the angle of the point \<open>(x, y)\<close>, in \<open>(-pi, pi]\<close>.\<close>

definition atan2 :: "real \<Rightarrow> real \<Rightarrow> real" where
  "atan2 y x =
     (if 0 < x then arctan (y / x)
      else if x < 0 then (if 0 \<le> y then arctan (y / x) + pi else arctan (y / x) - pi)
      else if 0 < y then pi / 2
      else if y < 0 then - (pi / 2)
      else 0)"

text \<open>\<open>toupper\<close> in the C locale: the letters \<open>a\<close> .. \<open>z\<close> are moved to \<open>A\<close> .. \<open>Z\<close>.\<close>

definition toupper :: "char \<Rightarrow> char" where
  "toupper c =
     (let n = (of_char c :: nat)
      in if 97 \<le> n \<and> n \<le> 122 then char_of (n - 32) else c)"

text \<open>\<open>std::string::find\<close> of a character: the first index, or \<open>npos\<close> (here \<open>None\<close>).\<close>

fun string_find :: "string \<Rightarrow> char \<Rightarrow> nat option" where
  "string_find [] c = None"
| "string_find (x # xs) c = (if x = c then Some 0 else map_option Suc (string_find xs c))"

subsection \<open>UTM zone and zone letter\<close>

definition GetZone :: "CLatLon \<Rightarrow> int" where
  "GetZone this =
     (let iZone = int_rem (double_to_int (of_int \<lfloor>(m_Longitude this + 180) / 6\<rfloor>)) 60 + 1;
          iZone = (if m_Latitude this > 56 \<and> m_Latitude this \<le> 64
                      \<and> m_Longitude this > 3 \<and> m_Longitude this \<le> 12
                   then 32 else iZone)
      in if m_Latitude this > 72 \<and> m_Latitude this < 84 then
           (if m_Longitude this \<ge> 0 \<and> m_Longitude this < 9 then 31
            else if m_Longitude this \<ge> 9 \<and> m_Longitude this < 21 then 33
            else if m_Longitude this \<ge> 21 \<and> m_Longitude this < 33 then 35
            else if m_Longitude this \<ge> 33 \<and> m_Longitude this < 42 then 37
            else iZone)
         else iZone)"

definition GetZoneLetter :: "CLatLon \<Rightarrow> char" where
  "GetZoneLetter this =
     (if m_Latitude this \<ge> 72 \<and> m_Latitude this \<le> 84 then CHR ''X''
      else
        let iZoneLetter = double_to_int (of_int \<lfloor>m_Latitude this + 80\<rfloor> / 8)
        in if iZoneLetter \<ge> 0 \<and> iZoneLetter < int (length m_strZoneLetters)
           then m_strZoneLetters ! nat iZoneLetter
           else CHR ''Z'')"

subsection \<open>UTM to latitude and longitude\<close>

text \<open>
  \<open>ConvertUTM\<close> overwrites the point it is called on and returns a flag: the model takes
  the point and returns the flag with the point after the call.
\<close>

definition ConvertUTM :: "CLatLon \<Rightarrow> int \<Rightarrow> char \<Rightarrow> real \<Rightarrow> real \<Rightarrow> bool \<times> CLatLon" where
  "ConvertUTM this iZone cZoneLetter dEasting dNorthing =
     (let k0 = 0.9996;
          dEastingOffset = 500000;
          dNorthingOffsetSouth = 1000000;
          a = m_a m_Ellipsoid;
          flat = 1 / m_fInv m_Ellipsoid;
          ecc2 = 2 * flat - flat * flat;
          ecc12 = ecc2 / (1 - ecc2);
          e1 = (1 - sqrt (1 - ecc2)) / (1 + sqrt (1 - ecc2));
          x = dEasting - dEastingOffset;
          y = dNorthing;
          cZoneLetter = toupper cZoneLetter
      in if string_find m_strZoneLetters cZoneLetter = None then (False, this)
         else
           let y = (if int (of_char cZoneLetter) - int (of_char (CHR ''N'')) < 0
                    then y - dNorthingOffsetSouth else y);
               dCentralLongitude = (of_int (iZone - 1) * 6 - 180 + 3) * m_Deg2Rad;
               M = y / k0;
               mu = M / (a * (1 - ecc2 / 4 - 3 * ecc2 * ecc2 / 64 - 5 * ecc2 * ecc2 * ecc2 / 256));
               phi1 = mu + (3 * e1 / 2 - 27 * e1 * e1 * e1 / 32) * sin (2 * mu)
                         + (21 * e1 * e1 / 16 - 55 * e1 * e1 * e1 * e1 / 32) * sin (4 * mu)
                         + (151 * e1 * e1 * e1 / 96) * sin (6 * mu);
               N1 = a / sqrt (1 - ecc2 * sin phi1 * sin phi1);
               T1 = tan phi1 * tan phi1;
               C1 = ecc12 * cos phi1 * cos phi1;
               R1 = a * (1 - ecc2) / ((1 - ecc2 * sin phi1 * sin phi1) powr 1.5);
               D = x / (N1 * k0);
               dLatitude = phi1 - (N1 * tan phi1 / R1)
                  * (D * D / 2
                     - (5 + 3 * T1 + 10 * C1 - 4 * C1 * C1 - 9 * ecc12) * D * D * D * D / 24
                     + (61 + 90 * T1 + 298 * C1 + 45 * T1 * T1 - 252 * ecc12 - 3 * C1 * C1)
                       * D * D * D * D * D * D / 720);
               dLongitude = (D - (1 + 2 * T1 + C1) * D * D * D / 6
                     + (5 - 2 * C1 + 28 * T1 - 3 * C1 * C1 + 8 * ecc12 + 24 * T1 * T1)
                       * D * D * D * D * D / 120) / cos phi1
           in (True, this\<lparr>m_Latitude := dLatitude / m_Deg2Rad,
                           m_Longitude := (dCentralLongitude + dLongitude) / m_Deg2Rad\<rparr>))"

subsection \<open>Latitude and longitude to UTM\<close>

text \<open>
  \<open>ToUTM\<close> stands in the source inside a disabled block; it is the forward conversion
  that \<open>ConvertUTM\<close> inverts. The source prints zone, letter, easting and northing into
  a string; the model returns the four values.
\<close>

record UTM =
  utm_zone :: int
  utm_letter :: char
  utm_easting :: real
  utm_northing :: real

definition ToUTM :: "CLatLon \<Rightarrow> UTM" where
  "ToUTM this =
     (let iZone = GetZone this;
          cZoneLetter = GetZoneLetter this;
          k0 = 0.9996;
          dEastingOffset = 500000;
          dNorthingOffsetSouth = 10000000;
          a = m_a m_Ellipsoid;
          flat = 1 / m_fInv m_Ellipsoid;
          ecc2 = 2 * flat - flat * flat;
          ecc12 = ecc2 / (1 - ecc2);
          dLatitude = m_Latitude this * m_Deg2Rad;
          dLongitude = (fmod (m_Longitude this + 180) 360 - 180) * m_Deg2Rad;
          dCentralLongitude = (of_int (iZone - 1) * 6 - 180 + 3) * m_Deg2Rad;
          N = a / sqrt (1 - ecc2 * sin dLatitude * sin dLatitude);
          T = tan dLatitude * tan dLatitude;
          C = ecc12 * cos dLatitude * cos dLatitude;
          A = cos dLatitude * (dLongitude - dCentralLongitude);
          M = a * ((1 - ecc2 / 4 - 3 * ecc2 * ecc2 / 64 - 5 * ecc2 * ecc2 * ecc2 / 256) * dLatitude
                 - (3 * ecc2 / 8 + 3 * ecc2 * ecc2 / 32 + 45 * ecc2 * ecc2 * ecc2 / 1024)
                   * sin (2 * dLatitude)
                 + (15 * ecc2 * ecc2 / 256 + 45 * ecc2 * ecc2 * ecc2 / 1024) * sin (4 * dLatitude)
                 - (35 * ecc2 * ecc2 * ecc2 / 3072) * sin (6 * dLatitude));
          dUTMEasting = k0 * N * (A + (1 - T + C) * A * A * A / 6
                 + (5 - 18 * T + T * T + 72 * C - 58 * ecc12) * A * A * A * A * A / 120)
                 + dEastingOffset;
          dUTMNorthing = k0 * (M + N * tan dLatitude
                 * (A * A / 2 + (5 - T + 9 * C + 4 * C * C) * A * A * A * A / 24
                    + (61 - 58 * T + T * T + 600 * C - 330 * ecc12)
                      * A * A * A * A * A * A / 720));
          dUTMNorthing = (if m_Latitude this < 0 then dUTMNorthing + dNorthingOffsetSouth
                          else dUTMNorthing);
          dUTMEasting = of_int \<lfloor>dUTMEasting + 0.5\<rfloor>;
          dUTMNorthing = of_int \<lfloor>dUTMNorthing + 0.5\<rfloor>
      in \<lparr>utm_zone = iZone, utm_letter = cZoneLetter,
          utm_easting = dUTMEasting, utm_northing = dUTMNorthing\<rparr>)"

subsection \<open>Spherical distance and projection\<close>

definition SphericalDistance :: "CLatLon \<Rightarrow> CLatLon \<Rightarrow> real" where
  "SphericalDistance this P =
     (let dDeltaLong = (m_Longitude this - m_Longitude P) * m_Deg2Rad;
          dLat1 = m_Latitude this * m_Deg2Rad;
          dLat2 = m_Latitude P * m_Deg2Rad;
          dDeltaLat = dLat1 - dLat2;
          dAngle = arccos (sin dLat1 * sin dLat2 + cos dLat1 * cos dLat2 * cos dDeltaLong);
          dDistance = m_Radius * dAngle
      in if dDistance < 0.01 then
           let dDeltaLong = dDeltaLong * cos dLat2
           in m_Radius * sqrt (dDeltaLat * dDeltaLat + dDeltaLong * dDeltaLong)
         else dDistance)"

definition SphericalProjection :: "CLatLon \<Rightarrow> real \<Rightarrow> real \<Rightarrow> CLatLon" where
  "SphericalProjection this dAzimuth dDistance =
     (let dAzimuth = dAzimuth * m_Deg2Rad;
          dLat1 = m_Deg2Rad * m_Latitude this;
          dLong1 = m_Deg2Rad * m_Longitude this;
          s = dDistance / m_Radius;
          dLat2 = arcsin (sin dLat1 * cos s + cos dLat1 * sin s * cos dAzimuth);
          dLong2 = atan2 (sin dAzimuth * sin s * cos dLat1) (cos s - sin dLat1 * sin dLat2)
      in \<lparr>m_Latitude = dLat2 / m_Deg2Rad,
          m_Longitude = fmod (dLong2 / m_Deg2Rad + 180) 360 - 180\<rparr>)"

subsection \<open>Distance to a great circle\<close>

text \<open>
  Division as IEEE arithmetic does it on finite operands: a zero divisor gives an
  infinity, or NaN for \<open>0 / 0\<close>. Every comparison with NaN is false.
\<close>

definition fdiv :: "real \<Rightarrow> real \<Rightarrow> double" where
  "fdiv x y =
     (if y \<noteq> 0 then Finite (x / y)
      else if 0 < x then PosInf
      else if x < 0 then NegInf
      else NaN)"

definition double_ge :: "double \<Rightarrow> real \<Rightarrow> bool" where
  "double_ge u c = (case u of Finite r \<Rightarrow> c \<le> r | PosInf \<Rightarrow> True | NegInf \<Rightarrow> False | NaN \<Rightarrow> False)"

definition double_less :: "double \<Rightarrow> real \<Rightarrow> bool" where
  "double_less u c = (case u of Finite r \<Rightarrow> r < c | PosInf \<Rightarrow> False | NegInf \<Rightarrow> True | NaN \<Rightarrow> False)"

text \<open>\<open>acos\<close> has a value on \<open>[-1, 1]\<close> only; elsewhere the library returns NaN.\<close>

definition acos_double :: "real \<Rightarrow> double" where
  "acos_double x = (if - 1 \<le> x \<and> x \<le> 1 then Finite (arccos x) else NaN)"

definition IsBetween :: "CLatLon \<Rightarrow> CLatLon \<Rightarrow> CLatLon \<Rightarrow> bool" where
  "IsBetween this P1 P2 =
     (let cosLat = cos (m_Latitude this * m_Deg2Rad);
          u = (m_Longitude this - m_Longitude P1) * (m_Longitude P2 - m_Longitude P1)
                * cosLat * cosLat
              + (m_Latitude this - m_Latitude P1) * (m_Latitude P2 - m_Latitude P1);
          u = fdiv u ((m_Longitude P2 - m_Longitude P1) * (m_Longitude P2 - m_Longitude P1)
                        * cosLat * cosLat
                      + (m_Latitude P2 - m_Latitude P1) * (m_Latitude P2 - m_Latitude P1))
      in double_ge u 0 \<and> double_less u 1)"

definition ToSphericalCartesian :: "CLatLon \<Rightarrow> CCartesianCoord" where
  "ToSphericalCartesian this =
     (let dLat = m_Latitude this * m_Deg2Rad;
          dLong = m_Longitude this * m_Deg2Rad
      in \<lparr>m_x = m_Radius * cos dLong * cos dLat,
          m_y = m_Radius * sin dLong * cos dLat,
          m_z = m_Radius * sin dLat\<rparr>)"

definition SphericalCross :: "CLatLon \<Rightarrow> CLatLon \<Rightarrow> CCartesianCoord" where
  "SphericalCross this P =
     (let dLat1 = m_Latitude this * m_Deg2Rad;
          dLong1 = m_Longitude this * m_Deg2Rad;
          dLat2 = m_Latitude P * m_Deg2Rad;
          dLong2 = m_Longitude P * m_Deg2Rad;
          dDeltaLat = dLat1 - dLat2;
          dSumLat = dLat1 + dLat2;
          dDeltaLong = (dLong1 - dLong2) / 2;
          dAvgLong = (dLong1 + dLong2) / 2
      in \<lparr>m_x = sin dSumLat * cos dAvgLong * sin dDeltaLong
                - sin dDeltaLat * sin dAvgLong * cos dDeltaLong,
          m_y = sin dDeltaLat * cos dAvgLong * cos dDeltaLong
                + sin dSumLat * sin dAvgLong * sin dDeltaLong,
          m_z = cos dLat1 * cos dLat2 * sin (- 2 * dDeltaLong)\<rparr>)"

text \<open>
  Modelled from the spec: \<open>CCartesianCoord::Normalize\<close> and \<open>CCartesianCoord::dot\<close> are
  declared in \<open>Coord.h\<close>, which is not among the sources. The spec gives the type
  "dot product, cross product, normalization (divide by magnitude; fails/undefined when
  magnitude is zero)". With magnitude zero the three components are zero and each
  quotient is \<open>0 / 0\<close>, NaN: \<open>Normalize\<close> returns \<open>None\<close> for that vector of NaNs.
\<close>

definition Normalize :: "CCartesianCoord \<Rightarrow> CCartesianCoord option" where
  "Normalize C =
     (let d = sqrt (m_x C * m_x C + m_y C * m_y C + m_z C * m_z C)
      in if d = 0 then None
         else Some \<lparr>m_x = m_x C / d, m_y = m_y C / d, m_z = m_z C / d\<rparr>)"

definition dot :: "CCartesianCoord \<Rightarrow> CCartesianCoord \<Rightarrow> real" where
  "dot A B = m_x A * m_x B + m_y A * m_y B + m_z A * m_z B"

text \<open>The overload \<open>SphericalDistance(P1, P2)\<close>: the distance to the great circle.\<close>

definition SphericalDistance_GC :: "CLatLon \<Rightarrow> CLatLon \<Rightarrow> CLatLon \<Rightarrow> double" where
  "SphericalDistance_GC this P1 P2 =
     (let dSign = (if \<not> IsBetween this P1 P2 then - 1 else 1);
          P = ToSphericalCartesian this;
          N = SphericalCross P1 P2
      in case Normalize N of
           None \<Rightarrow> NaN
         | Some N \<Rightarrow>
             (case acos_double (dot N P) of
                Finite t \<Rightarrow> Finite (dSign * \<bar>m_Radius * (PI / 2 - t)\<bar>)
              | _ \<Rightarrow> NaN))"

subsection \<open>Vincenty distance\<close>

text \<open>
  The loops of the source are \<open>do ... while (delta > EPSILON)\<close> with no counter: each
  is a recursive function with an \<open>option\<close> result, \<open>None\<close> standing for a loop that
  does not end.
\<close>

record VincentyIter =
  it_lambda :: real
  it_ss :: real
  it_cs :: real
  it_cosalpha2 :: real
  it_c2sm :: real

definition VincentyDistance_body ::
  "real \<Rightarrow> real \<Rightarrow> real \<Rightarrow> real \<Rightarrow> real \<Rightarrow> real \<Rightarrow> real \<Rightarrow> VincentyIter" where
  "VincentyDistance_body flat cosu1 sinu1 cosu2 sinu2 omega lambda =
     (let ss1 = cosu2 * sin lambda;
          ss2 = cosu1 * sinu2 - sinu1 * cosu2 * cos lambda;
          ss = sqrt (ss1 * ss1 + ss2 * ss2);
          cs = sinu1 * sinu2 + cosu1 * cosu2 * cos lambda;
          tansigma = ss / cs;
          sinalpha = cosu1 * cosu2 * sin lambda / ss;
          dtmp = arcsin sinalpha;
          cosalpha = cos dtmp;
          cosalpha2 = cosalpha * cosalpha;
          c2sm = cs - 2 * sinu1 * sinu2 / cosalpha2;
          c = flat / 16 * cosalpha2 * (4 + flat * (4 - 3 * cosalpha2));
          lambda = omega + (1 - c) * flat * sinalpha
                     * (arcsin ss + c * ss * (c2sm + c * cs * (- 1 + 2 * c2sm * c2sm)))
      in \<lparr>it_lambda = lambda, it_ss = ss, it_cs = cs,
          it_cosalpha2 = cosalpha2, it_c2sm = c2sm\<rparr>)"

partial_function (option) VincentyDistance_loop ::
  "real \<Rightarrow> real \<Rightarrow> real \<Rightarrow> real \<Rightarrow> real \<Rightarrow> real \<Rightarrow> real \<Rightarrow> VincentyIter option" where
  "VincentyDistance_loop flat cosu1 sinu1 cosu2 sinu2 omega lambda =
     (let testlambda = lambda;
          it = VincentyDistance_body flat cosu1 sinu1 cosu2 sinu2 omega lambda;
          dDeltaLambda = \<bar>testlambda - it_lambda it\<bar>
      in if dDeltaLambda > EPSILON
         then VincentyDistance_loop flat cosu1 sinu1 cosu2 sinu2 omega (it_lambda it)
         else Some it)"

record VincentyResult =
  vr_distance :: real
  vr_ForwardAzimuth :: real
  vr_ReverseAzimuth :: real

definition VincentyDistance :: "CLatLon \<Rightarrow> CLatLon \<Rightarrow> VincentyResult option" where
  "VincentyDistance this P =
     (if m_Latitude this = m_Latitude P \<and> m_Longitude this = m_Longitude P
      then Some \<lparr>vr_distance = 0, vr_ForwardAzimuth = 0, vr_ReverseAzimuth = 0\<rparr>
      else
        let dLat1 = m_Deg2Rad * m_Latitude this;
            dLat2 = m_Deg2Rad * m_Latitude P;
            dLong1 = m_Deg2Rad * m_Longitude this;
            dLong2 = m_Deg2Rad * m_Longitude P;
            a0 = m_a m_Ellipsoid;
            flat = 1 / m_fInv m_Ellipsoid;
            r = 1 - flat;
            b0 = a0 * r;
            tanu1 = r * tan dLat1;
            tanu2 = r * tan dLat2;
            dtmp = arctan tanu1;
            cosu1 = cos dtmp;
            sinu1 = sin dtmp;
            dtmp = arctan tanu2;
            cosu2 = cos dtmp;
            sinu2 = sin dtmp;
            omega = dLong2 - dLong1;
            lambda = omega
        in case VincentyDistance_loop flat cosu1 sinu1 cosu2 sinu2 omega lambda of
             None \<Rightarrow> None
           | Some it \<Rightarrow>
               let lambda = it_lambda it; ss = it_ss it; cs = it_cs it;
                   cosalpha2 = it_cosalpha2 it; c2sm = it_c2sm it;
                   u2 = cosalpha2 * (a0 * a0 - b0 * b0) / (b0 * b0);
                   a = 1 + (u2 / 16384) * (4096 + u2 * (- 768 + u2 * (320 - 175 * u2)));
                   b = (u2 / 1024) * (256 + u2 * (- 128 + u2 * (74 - 47 * u2)));
                   dsigma = b * ss * (c2sm + (b / 4) * (cs * (- 1 + 2 * c2sm * c2sm)
                              - (b / 6) * c2sm * (- 3 + 4 * ss * ss) * (- 3 + 4 * c2sm * c2sm)));
                   s = b0 * a * (arcsin ss - dsigma);
                   alpha12 = atan2 (cosu2 * sin lambda)
                               (cosu1 * sinu2 - sinu1 * cosu2 * cos lambda) / m_Deg2Rad;
                   alpha21 = atan2 (cosu1 * sin lambda)
                               (- sinu1 * cosu2 + cosu1 * sinu2 * cos lambda) / m_Deg2Rad
               in Some \<lparr>vr_distance = s,
                        vr_ForwardAzimuth = fmod (alpha12 + 360) 360,
                        vr_ReverseAzimuth = fmod (alpha21 + 180) 360\<rparr>)"

subsection \<open>Vincenty projection\<close>

definition VincentyProjection_body :: "real \<Rightarrow> real \<Rightarrow> real \<Rightarrow> real \<Rightarrow> real \<Rightarrow> real \<Rightarrow> real" where
  "VincentyProjection_body s b0 a b sigma1 sigma =
     (let twosigmam = 2 * sigma1 + sigma;
          ss = sin sigma;
          cs = cos sigma;
          c2sm = cos twosigmam;
          deltasigma = b * ss * (c2sm + b / 4 * (cs * (- 1 + 2 * c2sm * c2sm)
                         - b / 6 * c2sm * (- 3 + 4 * ss * ss) * (- 3 + 4 * c2sm * c2sm)))
      in s / (b0 * a) + deltasigma)"

partial_function (option) VincentyProjection_loop ::
  "real \<Rightarrow> real \<Rightarrow> real \<Rightarrow> real \<Rightarrow> real \<Rightarrow> real \<Rightarrow> real option" where
  "VincentyProjection_loop s b0 a b sigma1 sigma =
     (let lastsigma = sigma;
          sigma = VincentyProjection_body s b0 a b sigma1 sigma
      in if \<bar>sigma - lastsigma\<bar> > EPSILON
         then VincentyProjection_loop s b0 a b sigma1 sigma
         else Some sigma)"

definition VincentyProjection :: "CLatLon \<Rightarrow> real \<Rightarrow> real \<Rightarrow> CLatLon option" where
  "VincentyProjection this dAzimuth dDistance =
     (let dAzimuth = dAzimuth * m_Deg2Rad;
          dLat1 = m_Deg2Rad * m_Latitude this;
          dLong1 = m_Deg2Rad * m_Longitude this;
          s = dDistance;
          a0 = m_a m_Ellipsoid;
          flat = 1 / m_fInv m_Ellipsoid;
          r = 1 - flat;
          b0 = a0 * r;
          tanu1 = r * tan dLat1;
          tansigma1 = tanu1 / cos dAzimuth;
          u1 = arctan tanu1;
          sinu1 = sin u1;
          cosu1 = cos u1;
          sinalpha = cosu1 * sin dAzimuth;
          cosalpha = sqrt (1 - sinalpha * sinalpha);
          usqr = cosalpha * cosalpha * (a0 * a0 - b0 * b0) / (b0 * b0);
          term1 = usqr / 16384;
          term2 = 4096 + usqr * (- 768 + usqr * (320 - 175 * usqr));
          a = 1 + term1 * term2;
          b = usqr / 1024 * (256 + usqr * (- 128 + usqr * (74 - 47 * usqr)));
          sigma = s / (b0 * a);
          sigma1 = arctan tansigma1
      in case VincentyProjection_loop s b0 a b sigma1 sigma of
           None \<Rightarrow> None
         | Some sigma \<Rightarrow>
             let twosigmam = 2 * sigma1 + sigma;
                 ss = sin sigma;
                 cs = cos sigma;
                 c2sm = cos twosigmam;
                 term1 = sinu1 * cs + cosu1 * ss * cos dAzimuth;
                 term4 = sinu1 * ss - cosu1 * cs * cos dAzimuth;
                 term2 = sinalpha * sinalpha + term4 * term4;
                 term3 = r * sqrt term2;
                 dLat2 = atan2 term1 term3;
                 term1 = ss * sin dAzimuth;
                 term2 = cosu1 * cs - sinu1 * ss * cos dAzimuth;
                 tanlambda = term1 / term2;
                 lambda = atan2 term1 term2;
                 c = flat / 16 * cosalpha * cosalpha * (4 + flat * (4 - 3 * cosalpha * cosalpha));
                 omega = lambda - (1 - c) * flat * sinalpha
                           * (sigma + c * ss * (c2sm + c * cs * (- 1 + 2 * c2sm * c2sm)));
                 dLong2 = dLong1 + omega
             in Some \<lparr>m_Latitude = fmod (dLat2 / m_Deg2Rad) 360,
                      m_Longitude = fmod (dLong2 / m_Deg2Rad) 360\<rparr>)"

subsection \<open>Cartesian coordinates to latitude and longitude\<close>

text \<open>
  The estimate of \<open>FromCartesian\<close> is a quotient whose divisor can be zero (on the polar
  axis it is), so the estimate is a \<open>double\<close> value and the loop is written with the
  arithmetic of IEEE on infinities and NaN: an operation on finite values is the real
  one (no rounding, no overflow), every zero is \<open>+0\<close> (in \<open>FromCartesian\<close> the zero
  divisors are \<open>p * (1 - ecc2)\<close> and a difference, both \<open>+0\<close>), and every comparison with
  NaN is false.
\<close>

fun double_add :: "double \<Rightarrow> double \<Rightarrow> double" where
  "double_add (Finite a) (Finite b) = Finite (a + b)"
| "double_add NaN _ = NaN"
| "double_add _ NaN = NaN"
| "double_add PosInf NegInf = NaN"
| "double_add NegInf PosInf = NaN"
| "double_add PosInf _ = PosInf"
| "double_add _ PosInf = PosInf"
| "double_add NegInf _ = NegInf"
| "double_add _ NegInf = NegInf"

fun double_neg :: "double \<Rightarrow> double" where
  "double_neg (Finite a) = Finite (- a)"
| "double_neg PosInf = NegInf"
| "double_neg NegInf = PosInf"
| "double_neg NaN = NaN"

definition double_sub :: "double \<Rightarrow> double \<Rightarrow> double" where
  "double_sub a b = double_add a (double_neg b)"

fun double_mul :: "double \<Rightarrow> double \<Rightarrow> double" where
  "double_mul (Finite a) (Finite b) = Finite (a * b)"
| "double_mul NaN _ = NaN"
| "double_mul _ NaN = NaN"
| "double_mul (Finite a) PosInf = (if 0 < a then PosInf else if a < 0 then NegInf else NaN)"
| "double_mul (Finite a) NegInf = (if 0 < a then NegInf else if a < 0 then PosInf else NaN)"
| "double_mul PosInf (Finite b) = (if 0 < b then PosInf else if b < 0 then NegInf else NaN)"
| "double_mul NegInf (Finite b) = (if 0 < b then NegInf else if b < 0 then PosInf else NaN)"
| "double_mul PosInf PosInf = PosInf"
| "double_mul PosInf NegInf = NegInf"
| "double_mul NegInf PosInf = NegInf"
| "double_mul NegInf NegInf = PosInf"

fun double_div :: "double \<Rightarrow> double \<Rightarrow> double" where
  "double_div (Finite a) (Finite b) = fdiv a b"
| "double_div NaN _ = NaN"
| "double_div _ NaN = NaN"
| "double_div (Finite a) PosInf = Finite 0"
| "double_div (Finite a) NegInf = Finite 0"
| "double_div PosInf (Finite b) = (if 0 \<le> b then PosInf else NegInf)"
| "double_div NegInf (Finite b) = (if 0 \<le> b then NegInf else PosInf)"
| "double_div PosInf PosInf = NaN"
| "double_div PosInf NegInf = NaN"
| "double_div NegInf PosInf = NaN"
| "double_div NegInf NegInf = NaN"

fun double_sqrt :: "double \<Rightarrow> double" where
  "double_sqrt (Finite a) = (if a < 0 then NaN else Finite (sqrt a))"
| "double_sqrt PosInf = PosInf"
| "double_sqrt NegInf = NaN"
| "double_sqrt NaN = NaN"

fun double_fabs :: "double \<Rightarrow> double" where
  "double_fabs (Finite a) = Finite \<bar>a\<bar>"
| "double_fabs PosInf = PosInf"
| "double_fabs NegInf = PosInf"
| "double_fabs NaN = NaN"

fun double_atan :: "double \<Rightarrow> double" where
  "double_atan (Finite a) = Finite (arctan a)"
| "double_atan PosInf = Finite (pi / 2)"
| "double_atan NegInf = Finite (- (pi / 2))"
| "double_atan NaN = NaN"

definition double_greater :: "double \<Rightarrow> real \<Rightarrow> bool" where
  "double_greater u c = (case u of Finite r \<Rightarrow> c < r | PosInf \<Rightarrow> True | NegInf \<Rightarrow> False | NaN \<Rightarrow> False)"

definition FromCartesian_body :: "real \<Rightarrow> real \<Rightarrow> real \<Rightarrow> real \<Rightarrow> double \<Rightarrow> double" where
  "FromCartesian_body z p r ecc2 dTmp =
     double_div (Finite z)
       (double_sub (Finite p)
          (double_div (Finite r)
             (double_sqrt (double_add (Finite 1)
                (double_mul (double_mul (Finite (1 - ecc2)) dTmp) dTmp)))))"

partial_function (option) FromCartesian_loop ::
  "real \<Rightarrow> real \<Rightarrow> real \<Rightarrow> real \<Rightarrow> double \<Rightarrow> double option" where
  "FromCartesian_loop z p r ecc2 dTmp =
     (let dLast = dTmp;
          dTmp = FromCartesian_body z p r ecc2 dTmp
      in if double_greater (double_fabs (double_sub dLast dTmp)) EPSILON
         then FromCartesian_loop z p r ecc2 dTmp
         else Some dTmp)"

text \<open>
  \<open>FromCartesian\<close> overwrites both fields of the point: the model returns the fields after
  the call, the latitude as a \<open>double\<close> value (it is NaN when the loop is left with NaN).
\<close>

record CLatLon_double =
  d_Latitude :: double
  d_Longitude :: real

definition FromCartesian :: "CLatLon \<Rightarrow> CCartesianCoord \<Rightarrow> CLatLon_double option" where
  "FromCartesian this C =
     (let a = m_a m_Ellipsoid;
          flat = 1 / m_fInv m_Ellipsoid;
          ecc2 = 2 * flat - flat * flat;
          r = a * ecc2;
          p = sqrt (m_x C * m_x C + m_y C * m_y C);
          dTmp = double_div (Finite (m_z C)) (Finite (p * (1 - ecc2)))
      in case FromCartesian_loop (m_z C) p r ecc2 dTmp of
           None \<Rightarrow> None
         | Some dTmp \<Rightarrow>
             Some \<lparr>d_Latitude = double_div (double_atan dTmp) (Finite m_Deg2Rad),
                   d_Longitude = atan2 (m_y C) (m_x C) / m_Deg2Rad\<rparr>)"

subsection \<open>The two distance formulas of the specification\<close>

text \<open>
  The specification names two formulas for the distance on the sphere: the cosine law
  \<open>R * acos (sin \<phi>1 * sin \<phi>2 + cos \<phi>1 * cos \<phi>2 * cos \<Delta>\<lambda>)\<close> and the planar
  approximation \<open>R * sqrt (\<Delta>\<phi>\<^sup>2 + (\<Delta>\<lambda> * cos \<phi>2)\<^sup>2)\<close>. They are written here from
  its words, to be compared with \<open>SphericalDistance\<close>.
\<close>

definition cosine_law_distance :: "CLatLon \<Rightarrow> CLatLon \<Rightarrow> real" where
  "cosine_law_distance P1 P2 =
     m_Radius * arccos (sin (m_Latitude P1 * m_Deg2Rad) * sin (m_Latitude P2 * m_Deg2Rad)
        + cos (m_Latitude P1 * m_Deg2Rad) * cos (m_Latitude P2 * m_Deg2Rad)
          * cos ((m_Longitude P1 - m_Longitude P2) * m_Deg2Rad))"

definition planar_distance :: "CLatLon \<Rightarrow> CLatLon \<Rightarrow> real" where
  "planar_distance P1 P2 =
     m_Radius * sqrt ((m_Latitude P1 * m_Deg2Rad - m_Latitude P2 * m_Deg2Rad)\<^sup>2
        + ((m_Longitude P1 - m_Longitude P2) * m_Deg2Rad * cos (m_Latitude P2 * m_Deg2Rad))\<^sup>2)"

section \<open>Properties\<close>

lemma string_find_None: "string_find s c = None \<longleftrightarrow> c \<notin> set s"
  by (induction s) auto

lemma ConvertUTM_flag:
  "fst (ConvertUTM this iZone c dEasting dNorthing) \<longleftrightarrow> toupper c \<in> set m_strZoneLetters"
  by (simp add: ConvertUTM_def Let_def string_find_None)

lemma ConvertUTM_rejected:
  "toupper c \<notin> set m_strZoneLetters \<Longrightarrow> ConvertUTM this iZone c dEasting dNorthing = (False, this)"
  by (simp add: ConvertUTM_def Let_def string_find_None)

subsection \<open>Zone letters\<close>

lemma Z_not_letter: "CHR ''Z'' \<notin> set m_strZoneLetters"
  by (simp add: m_strZoneLetters_def)

lemma toupper_Z: "toupper (CHR ''Z'') = CHR ''Z''"
  by (simp add: toupper_def)

lemma toupper_c: "toupper (CHR ''c'') = CHR ''C''"
  by code_simp

lemma toupper_letter: "c \<in> set m_strZoneLetters \<Longrightarrow> toupper c = c"
  by (auto simp: m_strZoneLetters_def toupper_def)

lemma GetZoneLetter_high: "84 < m_Latitude P \<Longrightarrow> GetZoneLetter P = CHR ''Z''"
proof -
  assume h: "84 < m_Latitude P"
  have "164 \<le> \<lfloor>m_Latitude P + 80\<rfloor>" using h by linarith
  then have "(20::real) \<le> of_int \<lfloor>m_Latitude P + 80\<rfloor> / 8" by simp
  then have "20 \<le> double_to_int (of_int \<lfloor>m_Latitude P + 80\<rfloor> / 8)"
    by (simp add: double_to_int_def le_floor_iff)
  then show ?thesis using h
    by (simp add: GetZoneLetter_def Let_def m_strZoneLetters_def)
qed

lemma GetZoneLetter_low: "m_Latitude P < - 88 \<Longrightarrow> GetZoneLetter P = CHR ''Z''"
proof -
  assume h: "m_Latitude P < - 88"
  have "\<lfloor>m_Latitude P + 80\<rfloor> \<le> - 9" using h by linarith
  then have "of_int \<lfloor>m_Latitude P + 80\<rfloor> / 8 \<le> (- 1 :: real)" by simp
  then have "double_to_int (of_int \<lfloor>m_Latitude P + 80\<rfloor> / 8) \<le> - 1"
    by (simp add: double_to_int_def ceiling_le_iff)
  then show ?thesis using h
    by (simp add: GetZoneLetter_def Let_def m_strZoneLetters_def)
qed

text \<open>
  C10. For every latitude above 84 degrees and every latitude below -88 degrees
  \<open>GetZoneLetter\<close> returns the character \<open>Z\<close>; \<open>Z\<close> is not one of the 20 zone letters,
  and \<open>ConvertUTM\<close> called with it returns false.
\<close>

theorem GetZoneLetter_sentinel:
  "(84 < m_Latitude P \<longrightarrow> GetZoneLetter P = CHR ''Z'')
   \<and> (m_Latitude P < - 88 \<longrightarrow> GetZoneLetter P = CHR ''Z'')
   \<and> CHR ''Z'' \<notin> set m_strZoneLetters
   \<and> \<not> fst (ConvertUTM Q iZone (CHR ''Z'') dEasting dNorthing)"
proof -
  have "\<not> fst (ConvertUTM Q iZone (CHR ''Z'') dEasting dNorthing)"
    by (simp add: ConvertUTM_flag toupper_Z Z_not_letter)
  then show ?thesis
    using GetZoneLetter_high [of P] GetZoneLetter_low [of P] Z_not_letter by blast
qed

theorem GetZoneLetter_sentinel_witness:
  "GetZoneLetter \<lparr>m_Latitude = 85, m_Longitude = 0\<rparr> = CHR ''Z''
   \<and> GetZoneLetter \<lparr>m_Latitude = - 89, m_Longitude = 0\<rparr> = CHR ''Z''"
  using GetZoneLetter_sentinel [of "\<lparr>m_Latitude = 85, m_Longitude = 0\<rparr>"]
        GetZoneLetter_sentinel [of "\<lparr>m_Latitude = - 89, m_Longitude = 0\<rparr>"]
  by simp

text \<open>
  C6, as the claim states it, fails: the lower-case letter \<open>c\<close> is not one of the 20
  characters of the table, and \<open>ConvertUTM\<close> accepts it.
\<close>

theorem ConvertUTM_lowercase_counterexample:
  "CHR ''c'' \<notin> set m_strZoneLetters
   \<and> fst (ConvertUTM \<lparr>m_Latitude = 0, m_Longitude = 0\<rparr> 31 (CHR ''c'') 500000 0)"
  by (simp add: ConvertUTM_flag toupper_c) (simp add: m_strZoneLetters_def)

text \<open>
  C6, amended. \<open>ConvertUTM\<close> looks the letter up after \<open>toupper\<close>: when the upper-case
  form of the letter is not in the table it returns false and leaves the point as it
  was (no hemisphere is assumed); when the upper-case form is in the table, and so for
  each of the 20 letters themselves, it returns true.
\<close>

theorem ConvertUTM_letter_validation:
  "(toupper c \<notin> set m_strZoneLetters \<longrightarrow>
      ConvertUTM this iZone c dEasting dNorthing = (False, this))
   \<and> (toupper c \<in> set m_strZoneLetters \<longrightarrow> fst (ConvertUTM this iZone c dEasting dNorthing))
   \<and> (c \<in> set m_strZoneLetters \<longrightarrow> fst (ConvertUTM this iZone c dEasting dNorthing))"
  using ConvertUTM_rejected [of c this iZone dEasting dNorthing]
        ConvertUTM_flag [of this iZone c dEasting dNorthing] toupper_letter [of c]
  by auto

theorem ConvertUTM_letter_validation_witness:
  "ConvertUTM \<lparr>m_Latitude = 1, m_Longitude = 2\<rparr> 31 (CHR ''Z'') 500000 0
     = (False, \<lparr>m_Latitude = 1, m_Longitude = 2\<rparr>)
   \<and> fst (ConvertUTM \<lparr>m_Latitude = 1, m_Longitude = 2\<rparr> 31 (CHR ''c'') 500000 0)
   \<and> fst (ConvertUTM \<lparr>m_Latitude = 1, m_Longitude = 2\<rparr> 31 (CHR ''C'') 500000 0)"
proof -
  have a: "toupper (CHR ''Z'') \<notin> set m_strZoneLetters"
    by (simp add: toupper_Z Z_not_letter)
  have b: "toupper (CHR ''c'') \<in> set m_strZoneLetters"
    by (simp add: toupper_c) (simp add: m_strZoneLetters_def)
  have c: "CHR ''C'' \<in> set m_strZoneLetters"
    by (simp add: m_strZoneLetters_def)
  show ?thesis
    using a b c
      ConvertUTM_letter_validation [of "CHR ''Z''" "\<lparr>m_Latitude = 1, m_Longitude = 2\<rparr>" 31 500000 0]
      ConvertUTM_letter_validation [of "CHR ''c''" "\<lparr>m_Latitude = 1, m_Longitude = 2\<rparr>" 31 500000 0]
      ConvertUTM_letter_validation [of "CHR ''C''" "\<lparr>m_Latitude = 1, m_Longitude = 2\<rparr>" 31 500000 0]
    by blast
qed

text \<open>
  C9. Whenever \<open>ConvertUTM\<close> returns false, the latitude and the longitude of the point
  are what they were before the call.
\<close>

theorem ConvertUTM_atomic:
  "\<not> fst (ConvertUTM this iZone c dEasting dNorthing) \<Longrightarrow>
   snd (ConvertUTM this iZone c dEasting dNorthing) = this"
  by (simp add: ConvertUTM_flag ConvertUTM_rejected)

theorem ConvertUTM_atomic_witness:
  "\<not> fst (ConvertUTM \<lparr>m_Latitude = 1, m_Longitude = 2\<rparr> 31 (CHR ''Z'') 500000 0)
   \<and> snd (ConvertUTM \<lparr>m_Latitude = 1, m_Longitude = 2\<rparr> 31 (CHR ''Z'') 500000 0)
       = \<lparr>m_Latitude = 1, m_Longitude = 2\<rparr>"
proof -
  have h: "\<not> fst (ConvertUTM \<lparr>m_Latitude = 1, m_Longitude = 2\<rparr> 31 (CHR ''Z'') 500000 0)"
    by (simp add: ConvertUTM_flag toupper_Z Z_not_letter)
  show ?thesis using h ConvertUTM_atomic [OF h] by simp
qed

subsection \<open>Vincenty distance of a point to itself\<close>

text \<open>
  C3. For every point \<open>P\<close>, \<open>VincentyDistance\<close> of \<open>P\<close> and \<open>P\<close> returns distance 0, forward
  azimuth 0 and reverse azimuth 0; the result does not depend on the loop (the call
  returns before it).
\<close>

theorem VincentyDistance_identity:
  "VincentyDistance P P
     = Some \<lparr>vr_distance = 0, vr_ForwardAzimuth = 0, vr_ReverseAzimuth = 0\<rparr>"
  by (simp add: VincentyDistance_def)

subsection \<open>Distance on the sphere\<close>

text \<open>
  C7. When the cosine-law distance is below 0.01 m, \<open>SphericalDistance\<close> returns the
  planar approximation; otherwise it returns the cosine-law distance.
\<close>

theorem SphericalDistance_branches:
  "(cosine_law_distance P1 P2 < 0.01 \<longrightarrow> SphericalDistance P1 P2 = planar_distance P1 P2)
   \<and> (\<not> cosine_law_distance P1 P2 < 0.01 \<longrightarrow> SphericalDistance P1 P2 = cosine_law_distance P1 P2)"
  by (simp add: SphericalDistance_def cosine_law_distance_def planar_distance_def Let_def power2_eq_square)

lemma cosine_same: "cosine_law_distance P P = 0"
proof -
  have "sin (m_Latitude P * m_Deg2Rad) * sin (m_Latitude P * m_Deg2Rad)
        + cos (m_Latitude P * m_Deg2Rad) * cos (m_Latitude P * m_Deg2Rad) = 1"
    using sin_cos_squared_add [of "m_Latitude P * m_Deg2Rad"] by (simp add: power2_eq_square)
  then show ?thesis by (simp add: cosine_law_distance_def)
qed

lemma cosine_equator:
  "cosine_law_distance \<lparr>m_Latitude = 0, m_Longitude = 1\<rparr> \<lparr>m_Latitude = 0, m_Longitude = 0\<rparr>
     = m_Radius * m_Deg2Rad"
proof -
  have "arccos (cos m_Deg2Rad) = m_Deg2Rad"
    using pi_ge_two by (intro arccos_cos) (auto simp: m_Deg2Rad_def)
  then show ?thesis by (simp add: cosine_law_distance_def)
qed

theorem SphericalDistance_branches_witness:
  "SphericalDistance \<lparr>m_Latitude = 0, m_Longitude = 0\<rparr> \<lparr>m_Latitude = 0, m_Longitude = 0\<rparr> = 0
   \<and> SphericalDistance \<lparr>m_Latitude = 0, m_Longitude = 1\<rparr> \<lparr>m_Latitude = 0, m_Longitude = 0\<rparr>
       = m_Radius * m_Deg2Rad"
proof -
  have a: "cosine_law_distance \<lparr>m_Latitude = 0, m_Longitude = 0\<rparr> \<lparr>m_Latitude = 0, m_Longitude = 0\<rparr> < 0.01"
    by (simp add: cosine_same)
  have b: "\<not> cosine_law_distance \<lparr>m_Latitude = 0, m_Longitude = 1\<rparr> \<lparr>m_Latitude = 0, m_Longitude = 0\<rparr> < 0.01"
    by (simp add: cosine_equator) (simp add: m_Radius_def m_Deg2Rad_def)
  have c: "planar_distance \<lparr>m_Latitude = 0, m_Longitude = 0\<rparr> \<lparr>m_Latitude = 0, m_Longitude = 0\<rparr> = 0"
    by (simp add: planar_distance_def)
  show ?thesis
    using a b c cosine_equator
      SphericalDistance_branches [of "\<lparr>m_Latitude = 0, m_Longitude = 0\<rparr>" "\<lparr>m_Latitude = 0, m_Longitude = 0\<rparr>"]
      SphericalDistance_branches [of "\<lparr>m_Latitude = 0, m_Longitude = 1\<rparr>" "\<lparr>m_Latitude = 0, m_Longitude = 0\<rparr>"]
    by simp
qed

subsection \<open>Distance to a great circle\<close>

lemma Deg2Rad_45_bounds: "pi / 6 \<le> 45 * m_Deg2Rad \<and> 45 * m_Deg2Rad < pi / 2"
  using pi_ge_two pi_less_4 by (simp add: m_Deg2Rad_def)

lemma sin_45_Deg2Rad: "1 / 2 \<le> sin (45 * m_Deg2Rad)"
proof -
  have "sin (pi / 6) \<le> sin (45 * m_Deg2Rad)"
    using Deg2Rad_45_bounds pi_ge_two by (intro sin_monotone_2pi_le) auto
  then show ?thesis by (simp add: sin_30)
qed

lemma cos_45_Deg2Rad: "0 < cos (45 * m_Deg2Rad)"
  using Deg2Rad_45_bounds pi_ge_two by (intro cos_gt_zero_pi) auto

lemma sin_Deg2Rad_pos: "0 < sin m_Deg2Rad"
  using pi_ge_two by (intro sin_gt_zero) (auto simp: m_Deg2Rad_def)

lemma IsBetween_degenerate: "IsBetween P P1 P1 = False"
  by (simp add: IsBetween_def Let_def fdiv_def double_ge_def double_less_def)

lemma SphericalCross_same: "SphericalCross P1 P1 = \<lparr>m_x = 0, m_y = 0, m_z = 0\<rparr>"
  by (simp add: SphericalCross_def Let_def)

lemma SphericalDistance_GC_degenerate: "SphericalDistance_GC P P1 P1 = NaN"
  by (simp add: SphericalDistance_GC_def SphericalCross_same Normalize_def Let_def)

lemma cross_example:
  "SphericalCross \<lparr>m_Latitude = 0, m_Longitude = 0\<rparr> \<lparr>m_Latitude = 0, m_Longitude = 1\<rparr>
     = \<lparr>m_x = 0, m_y = 0, m_z = sin m_Deg2Rad\<rparr>"
  by (simp add: SphericalCross_def Let_def)

lemma normalize_example:
  "Normalize \<lparr>m_x = 0, m_y = 0, m_z = sin m_Deg2Rad\<rparr> = Some \<lparr>m_x = 0, m_y = 0, m_z = 1\<rparr>"
  using sin_Deg2Rad_pos by (simp add: Normalize_def Let_def)

lemma IsBetween_example:
  "\<not> IsBetween \<lparr>m_Latitude = 45, m_Longitude = 2\<rparr>
       \<lparr>m_Latitude = 0, m_Longitude = 0\<rparr> \<lparr>m_Latitude = 0, m_Longitude = 1\<rparr>"
  using cos_45_Deg2Rad
  by (simp add: IsBetween_def Let_def fdiv_def double_ge_def double_less_def)

lemma GC_example:
  "SphericalDistance_GC \<lparr>m_Latitude = 45, m_Longitude = 2\<rparr>
       \<lparr>m_Latitude = 0, m_Longitude = 0\<rparr> \<lparr>m_Latitude = 0, m_Longitude = 1\<rparr> = NaN"
proof -
  have "1 < m_Radius * sin (45 * m_Deg2Rad)"
  proof -
    have "m_Radius * (1 / 2) \<le> m_Radius * sin (45 * m_Deg2Rad)"
      using sin_45_Deg2Rad by (intro mult_left_mono) (auto simp: m_Radius_def)
    then show ?thesis by (simp add: m_Radius_def)
  qed
  then show ?thesis
    by (simp add: SphericalDistance_GC_def cross_example normalize_example
        ToSphericalCartesian_def dot_def acos_double_def Let_def)
qed

lemma IsBetween_example_inside:
  "IsBetween \<lparr>m_Latitude = 45, m_Longitude = 1 / 2\<rparr>
       \<lparr>m_Latitude = 0, m_Longitude = 0\<rparr> \<lparr>m_Latitude = 0, m_Longitude = 1\<rparr>"
  using cos_45_Deg2Rad
  by (simp add: IsBetween_def Let_def fdiv_def double_ge_def double_less_def)

lemma GC_example_inside:
  "SphericalDistance_GC \<lparr>m_Latitude = 45, m_Longitude = 1 / 2\<rparr>
       \<lparr>m_Latitude = 0, m_Longitude = 0\<rparr> \<lparr>m_Latitude = 0, m_Longitude = 1\<rparr> = NaN"
proof -
  have "m_Radius * (1 / 2) \<le> m_Radius * sin (45 * m_Deg2Rad)"
    using sin_45_Deg2Rad by (intro mult_left_mono) (auto simp: m_Radius_def)
  then have "1 < m_Radius * sin (45 * m_Deg2Rad)" by (simp add: m_Radius_def)
  then show ?thesis
    by (simp add: SphericalDistance_GC_def cross_example normalize_example
        ToSphericalCartesian_def dot_def acos_double_def Let_def)
qed

text \<open>
  C5, as the claim states it, fails: with \<open>P1 = P2\<close> no error is reported; \<open>IsBetween\<close>
  returns the ordinary value false and the distance to the great circle is NaN.
\<close>

theorem degenerate_segment_counterexample:
  "IsBetween \<lparr>m_Latitude = 10, m_Longitude = 20\<rparr>
      \<lparr>m_Latitude = 1, m_Longitude = 2\<rparr> \<lparr>m_Latitude = 1, m_Longitude = 2\<rparr> = False
   \<and> SphericalDistance_GC \<lparr>m_Latitude = 10, m_Longitude = 20\<rparr>
      \<lparr>m_Latitude = 1, m_Longitude = 2\<rparr> \<lparr>m_Latitude = 1, m_Longitude = 2\<rparr> = NaN"
  by (simp add: IsBetween_degenerate SphericalDistance_GC_degenerate)

text \<open>
  C5, amended. For every point \<open>P\<close> and coincident reference points \<open>P1 = P2\<close> the
  division by zero is carried out and nothing is reported: \<open>IsBetween\<close> returns false
  (the quotient \<open>0 / 0\<close> is NaN, and both comparisons with it are false) and the
  two-argument \<open>SphericalDistance\<close> returns NaN.
\<close>

theorem degenerate_segment_not_detected:
  "IsBetween P P1 P1 = False \<and> SphericalDistance_GC P P1 P1 = NaN"
  by (simp add: IsBetween_degenerate SphericalDistance_GC_degenerate)

text \<open>
  C8 at the points \<open>P1 = (0, 0)\<close>, \<open>P2 = (0, 1)\<close> on the equator and \<open>P\<close> at latitude 45.
  \<open>P\<close> is about 5000 km from the great circle; for \<open>P = (45, 2)\<close> the test \<open>IsBetween\<close> is
  false and for \<open>P = (45, 1/2)\<close> it is true, and in both cases the result is NaN: neither
  negative nor non-negative, and not a distance. The argument of \<open>acos\<close> is the dot
  product of the unit normal with the vector of \<open>P\<close>, whose length is the radius
  of the Earth in metres, here above 1.
\<close>

theorem SphericalDistance_GC_far_point:
  "\<not> IsBetween \<lparr>m_Latitude = 45, m_Longitude = 2\<rparr>
       \<lparr>m_Latitude = 0, m_Longitude = 0\<rparr> \<lparr>m_Latitude = 0, m_Longitude = 1\<rparr>
   \<and> SphericalDistance_GC \<lparr>m_Latitude = 45, m_Longitude = 2\<rparr>
       \<lparr>m_Latitude = 0, m_Longitude = 0\<rparr> \<lparr>m_Latitude = 0, m_Longitude = 1\<rparr> = NaN
   \<and> IsBetween \<lparr>m_Latitude = 45, m_Longitude = 1 / 2\<rparr>
       \<lparr>m_Latitude = 0, m_Longitude = 0\<rparr> \<lparr>m_Latitude = 0, m_Longitude = 1\<rparr>
   \<and> SphericalDistance_GC \<lparr>m_Latitude = 45, m_Longitude = 1 / 2\<rparr>
       \<lparr>m_Latitude = 0, m_Longitude = 0\<rparr> \<lparr>m_Latitude = 0, m_Longitude = 1\<rparr> = NaN"
  using IsBetween_example GC_example IsBetween_example_inside GC_example_inside by simp

subsection \<open>The iterations\<close>

text \<open>
  A loop \<open>do ... while (far)\<close> returns exactly when some round fails its test: it then
  returns the result of the first such round.
\<close>

lemma loop_rounds:
  fixes L :: "'a \<Rightarrow> 'b option"
  assumes continue: "\<And>x. far x \<Longrightarrow> L x = L (step x)"
    and exit: "\<And>x. \<not> far x \<Longrightarrow> L x = Some (out x)"
  shows "(\<forall>k<n. far ((step ^^ k) x)) \<Longrightarrow> \<not> far ((step ^^ n) x) \<Longrightarrow>
         L x = Some (out ((step ^^ n) x))"
proof (induction n arbitrary: x)
  case 0
  then show ?case by (simp add: exit)
next
  case (Suc n)
  have "far ((step ^^ 0) x)" using Suc.prems(1) by blast
  then have "L x = L (step x)" by (simp add: continue)
  moreover have "L (step x) = Some (out ((step ^^ n) (step x)))"
  proof (rule Suc.IH)
    show "\<forall>k<n. far ((step ^^ k) (step x))"
    proof (intro allI impI)
      fix k assume "k < n"
      then have "far ((step ^^ Suc k) x)" using Suc.prems(1) by (meson Suc_less_eq)
      then show "far ((step ^^ k) (step x))" by (simp add: funpow_swap1)
    qed
    show "\<not> far ((step ^^ n) (step x))"
      using Suc.prems(2) by (simp add: funpow_swap1)
  qed
  ultimately show ?case by (simp add: funpow_swap1)
qed

lemma first_exit_now:
  "\<not> far x \<Longrightarrow>
   \<exists>n. (\<forall>k<n. far ((step ^^ k) x)) \<and> \<not> far ((step ^^ n) x) \<and> out x = out ((step ^^ n) x)"
  by (intro exI [of _ 0]) simp

lemma first_exit_later:
  assumes "far x"
    and "\<exists>n. (\<forall>k<n. far ((step ^^ k) (step x))) \<and> \<not> far ((step ^^ n) (step x))
           \<and> y = out ((step ^^ n) (step x))"
  shows "\<exists>n. (\<forall>k<n. far ((step ^^ k) x)) \<and> \<not> far ((step ^^ n) x) \<and> y = out ((step ^^ n) x)"
proof -
  from assms(2) obtain n where n: "\<forall>k<n. far ((step ^^ k) (step x))"
    "\<not> far ((step ^^ n) (step x))" "y = out ((step ^^ n) (step x))" by blast
  have "\<forall>k<Suc n. far ((step ^^ k) x)"
  proof (intro allI impI)
    fix k assume k: "k < Suc n"
    show "far ((step ^^ k) x)"
    proof (cases k)
      case 0
      then show ?thesis using assms(1) by simp
    next
      case (Suc j)
      with k n(1) show ?thesis by (simp add: funpow_swap1)
    qed
  qed
  moreover have "\<not> far ((step ^^ Suc n) x)" using n(2) by (simp add: funpow_swap1)
  moreover have "y = out ((step ^^ Suc n) x)" using n(3) by (simp add: funpow_swap1)
  ultimately show ?thesis by blast
qed




lemma VincentyProjection_loop_returns:
  "VincentyProjection_loop s b0 a b sigma1 sg0 = Some sg \<longleftrightarrow>
   (\<exists>n. (\<forall>k<n. \<bar>VincentyProjection_body s b0 a b sigma1 ((VincentyProjection_body s b0 a b sigma1 ^^ k) sg0)
               - (VincentyProjection_body s b0 a b sigma1 ^^ k) sg0\<bar> > EPSILON)
      \<and> \<not> \<bar>VincentyProjection_body s b0 a b sigma1 ((VincentyProjection_body s b0 a b sigma1 ^^ n) sg0)
               - (VincentyProjection_body s b0 a b sigma1 ^^ n) sg0\<bar> > EPSILON
      \<and> sg = VincentyProjection_body s b0 a b sigma1 ((VincentyProjection_body s b0 a b sigma1 ^^ n) sg0))"
  (is "?L = Some sg \<longleftrightarrow> ?R sg0 sg")
proof
  assume "?L = Some sg"
  then show "?R sg0 sg"
  proof (induction rule: VincentyProjection_loop.raw_induct [rotated 1, consumes 1])
    case (1 f s b0 a b sigma1 sg0 sg)
    show ?case
    proof (cases "\<bar>VincentyProjection_body s b0 a b sigma1 sg0 - sg0\<bar> > EPSILON")
      case True
      with 1(2) have "f s b0 a b sigma1 (VincentyProjection_body s b0 a b sigma1 sg0) = Some sg"
        by (simp add: Let_def)
      from first_exit_later [where far = "\<lambda>x. \<bar>VincentyProjection_body s b0 a b sigma1 x - x\<bar> > EPSILON"
          and step = "VincentyProjection_body s b0 a b sigma1"
          and out = "VincentyProjection_body s b0 a b sigma1", OF True 1(1) [OF this]]
      show ?thesis .
    next
      case False
      with 1(2) have "sg = VincentyProjection_body s b0 a b sigma1 sg0" by (simp add: Let_def)
      with first_exit_now [where far = "\<lambda>x. \<bar>VincentyProjection_body s b0 a b sigma1 x - x\<bar> > EPSILON"
          and step = "VincentyProjection_body s b0 a b sigma1"
          and out = "VincentyProjection_body s b0 a b sigma1", OF False]
      show ?thesis by simp
    qed
  qed
next
  assume "?R sg0 sg"
  then obtain n where n:
    "\<forall>k<n. \<bar>VincentyProjection_body s b0 a b sigma1 ((VincentyProjection_body s b0 a b sigma1 ^^ k) sg0)
               - (VincentyProjection_body s b0 a b sigma1 ^^ k) sg0\<bar> > EPSILON"
    "\<not> \<bar>VincentyProjection_body s b0 a b sigma1 ((VincentyProjection_body s b0 a b sigma1 ^^ n) sg0)
               - (VincentyProjection_body s b0 a b sigma1 ^^ n) sg0\<bar> > EPSILON"
    "sg = VincentyProjection_body s b0 a b sigma1 ((VincentyProjection_body s b0 a b sigma1 ^^ n) sg0)"
    by blast
  have "VincentyProjection_loop s b0 a b sigma1 sg0
      = Some (VincentyProjection_body s b0 a b sigma1 ((VincentyProjection_body s b0 a b sigma1 ^^ n) sg0))"
    by (rule loop_rounds [where far = "\<lambda>x. \<bar>VincentyProjection_body s b0 a b sigma1 x - x\<bar> > EPSILON"
          and L = "VincentyProjection_loop s b0 a b sigma1", OF _ _ n(1) n(2)];
        subst VincentyProjection_loop.simps; simp add: Let_def)
  with n(3) show "?L = Some sg" by simp
qed









text \<open>
  On the polar axis the divisor \<open>p\<close> is zero: the first estimate is an infinity, so is the
  next one, their difference is NaN and the test of the loop is false. The loop is left
  after one round, and the latitude is \<open>pi / 2 / m_Deg2Rad\<close> (90 degrees) for a positive
  \<open>m_z\<close>, its opposite for a negative one, and NaN at the origin.
\<close>

lemma FromCartesian_body_PosInf: "0 < z \<Longrightarrow> e < 1 \<Longrightarrow> FromCartesian_body z 0 r e PosInf = PosInf"
  by (simp add: FromCartesian_body_def double_sub_def fdiv_def)

lemma FromCartesian_loop_polar:
  "0 < z \<Longrightarrow> e < 1 \<Longrightarrow> FromCartesian_loop z 0 r e PosInf = Some PosInf"
  by (subst FromCartesian_loop.simps)
    (simp add: FromCartesian_body_PosInf Let_def double_sub_def double_greater_def)

lemma FromCartesian_polar_axis:
  assumes "0 < z"
  shows "FromCartesian this \<lparr>m_x = 0, m_y = 0, m_z = z\<rparr>
       = Some \<lparr>d_Latitude = Finite (pi / 2 / m_Deg2Rad), d_Longitude = 0\<rparr>"
proof -
  define e :: real where "e = 2 * (1 / 298.257223563) - 1 / 298.257223563 * (1 / 298.257223563)"
  have e: "e < 1" unfolding e_def by simp
  have "FromCartesian_loop z 0 (6378137 * e) e PosInf = Some PosInf"
    using assms e by (rule FromCartesian_loop_polar)
  moreover have "double_div (Finite z) (Finite 0) = PosInf"
    using assms by (simp add: fdiv_def)
  moreover have "m_Deg2Rad \<noteq> 0" by (simp add: m_Deg2Rad_def)
  ultimately show ?thesis
    unfolding FromCartesian_def Let_def m_Ellipsoid_def
    by (simp add: e_def atan2_def fdiv_def)
qed

lemma FromCartesian_body_NegInf: "z < 0 \<Longrightarrow> e < 1 \<Longrightarrow> FromCartesian_body z 0 r e NegInf = NegInf"
  by (simp add: FromCartesian_body_def double_sub_def fdiv_def)

lemma FromCartesian_loop_polar_south:
  "z < 0 \<Longrightarrow> e < 1 \<Longrightarrow> FromCartesian_loop z 0 r e NegInf = Some NegInf"
  by (subst FromCartesian_loop.simps)
    (simp add: FromCartesian_body_NegInf Let_def double_sub_def double_greater_def)

lemma FromCartesian_polar_axis_south:
  assumes "z < 0"
  shows "FromCartesian this \<lparr>m_x = 0, m_y = 0, m_z = z\<rparr>
       = Some \<lparr>d_Latitude = Finite (- (pi / 2) / m_Deg2Rad), d_Longitude = 0\<rparr>"
proof -
  define e :: real where "e = 2 * (1 / 298.257223563) - 1 / 298.257223563 * (1 / 298.257223563)"
  have e: "e < 1" unfolding e_def by simp
  have "FromCartesian_loop z 0 (6378137 * e) e NegInf = Some NegInf"
    using assms e by (rule FromCartesian_loop_polar_south)
  moreover have "double_div (Finite z) (Finite 0) = NegInf"
    using assms by (simp add: fdiv_def)
  moreover have "m_Deg2Rad \<noteq> 0" by (simp add: m_Deg2Rad_def)
  ultimately show ?thesis
    unfolding FromCartesian_def Let_def m_Ellipsoid_def
    by (simp add: e_def atan2_def fdiv_def)
qed

lemma FromCartesian_origin:
  "FromCartesian this \<lparr>m_x = 0, m_y = 0, m_z = 0\<rparr> = Some \<lparr>d_Latitude = NaN, d_Longitude = 0\<rparr>"
proof -
  have "FromCartesian_loop 0 0 r e NaN = Some NaN" for r e
    by (subst FromCartesian_loop.simps)
      (simp add: FromCartesian_body_def Let_def double_sub_def double_greater_def)
  then show ?thesis
    unfolding FromCartesian_def Let_def
    by (simp add: atan2_def fdiv_def)
qed





text \<open>
  The update of \<open>VincentyProjection\<close> is \<open>sigma \<mapsto> s / (b0 * a) + deltasigma\<close>, and
  \<open>deltasigma\<close> is \<open>b\<close> times a polynomial in \<open>sin sigma\<close>, \<open>cos sigma\<close> and
  \<open>cos (2 * sigma1 + sigma)\<close>. For \<open>\<bar>b\<bar> \<le> 1 / 10\<close> the update is a contraction with the
  factor \<open>1 / 2\<close>, so in exact arithmetic the distance of two successive estimates is
  halved in every round: the loop started at \<open>s / (b0 * a)\<close> ends within 45 rounds. On the
  ellipsoid of the source \<open>\<bar>b\<bar> \<le> 1 / 10\<close> holds whatever the point and the azimuth, so
  \<open>VincentyProjection\<close> returns for every input. Rounding is outside the model.
\<close>

lemma sin_lipschitz: "\<bar>sin x - sin y\<bar> \<le> \<bar>x - y\<bar>" for x y :: real
proof -
  have "\<bar>sin x - sin y\<bar> = 2 * \<bar>sin ((x - y) / 2)\<bar> * \<bar>cos ((x + y) / 2)\<bar>"
    by (simp add: sin_diff_sin abs_mult)
  also have "\<dots> \<le> 2 * \<bar>(x - y) / 2\<bar> * 1"
    by (intro mult_mono abs_sin_x_le_abs_x abs_cos_le_one) simp_all
  finally show ?thesis by simp
qed

lemma cos_lipschitz: "\<bar>cos x - cos y\<bar> \<le> \<bar>x - y\<bar>" for x y :: real
proof -
  have "\<bar>cos x - cos y\<bar> = 2 * \<bar>sin ((y - x) / 2)\<bar> * \<bar>sin ((x + y) / 2)\<bar>"
    by (simp add: cos_diff_cos abs_mult)
  also have "\<dots> \<le> 2 * \<bar>(y - x) / 2\<bar> * 1"
    by (intro mult_mono abs_sin_x_le_abs_x abs_sin_le_one) simp_all
  finally show ?thesis by simp
qed

lemma lip_mult:
  fixes u1 u2 v1 v2 :: real
  assumes "\<bar>u1\<bar> \<le> U" "\<bar>v2\<bar> \<le> V" "\<bar>u1 - u2\<bar> \<le> Lu * d" "\<bar>v1 - v2\<bar> \<le> Lv * d"
    and "0 \<le> U" "0 \<le> V"
  shows "\<bar>u1 * v1 - u2 * v2\<bar> \<le> (U * Lv + V * Lu) * d"
proof -
  have "u1 * v1 - u2 * v2 = u1 * (v1 - v2) + v2 * (u1 - u2)" by (simp add: algebra_simps)
  then have "\<bar>u1 * v1 - u2 * v2\<bar> \<le> \<bar>u1\<bar> * \<bar>v1 - v2\<bar> + \<bar>v2\<bar> * \<bar>u1 - u2\<bar>"
    by (metis abs_mult abs_triangle_ineq)
  also have "\<dots> \<le> U * (Lv * d) + V * (Lu * d)"
    using assms by (intro add_mono mult_mono) auto
  finally show ?thesis by (simp add: algebra_simps)
qed

lemma bound_mult:
  fixes u v :: real
  assumes "\<bar>u\<bar> \<le> U" "\<bar>v\<bar> \<le> V"
  shows "\<bar>u * v\<bar> \<le> U * V"
  using assms by (simp add: abs_mult mult_mono)

lemma lip_mult_le:
  fixes u1 u2 v1 v2 :: real
  assumes "\<bar>u1\<bar> \<le> U" "\<bar>v2\<bar> \<le> V" "\<bar>u1 - u2\<bar> \<le> Lu * d" "\<bar>v1 - v2\<bar> \<le> Lv * d"
    and "0 \<le> U" "0 \<le> V" "0 \<le> d" "U * Lv + V * Lu \<le> K"
  shows "\<bar>u1 * v1 - u2 * v2\<bar> \<le> K * d"
proof -
  have "\<bar>u1 * v1 - u2 * v2\<bar> \<le> (U * Lv + V * Lu) * d"
    using assms(1-6) by (rule lip_mult)
  also have "\<dots> \<le> K * d" using assms(7,8) by (rule mult_right_mono [rotated])
  finally show ?thesis .
qed

lemma lip_scale:
  fixes b v1 v2 :: real
  assumes "\<bar>b\<bar> \<le> B" "\<bar>v1 - v2\<bar> \<le> L * d" "0 \<le> d" "B * L \<le> K"
  shows "\<bar>b * v1 - b * v2\<bar> \<le> K * d"
proof -
  have "\<bar>b * v1 - b * v2\<bar> = \<bar>b\<bar> * \<bar>v1 - v2\<bar>"
    by (simp add: abs_mult flip: right_diff_distrib)
  also have "\<dots> \<le> B * (L * d)"
    using assms(1,2) by (intro mult_mono) auto
  also have "\<dots> = B * L * d" by simp
  also have "\<dots> \<le> K * d" using assms(3,4) by (rule mult_right_mono [rotated])
  finally show ?thesis .
qed

lemma lip_square:
  fixes x y :: real
  assumes "\<bar>x\<bar> \<le> 1" "\<bar>y\<bar> \<le> 1" "\<bar>x - y\<bar> \<le> 1 * d" "0 \<le> d"
  shows "\<bar>x * x - y * y\<bar> \<le> 2 * d" "0 \<le> x * x" "x * x \<le> 1"
proof -
  show "\<bar>x * x - y * y\<bar> \<le> 2 * d"
    using assms(1,2,3) assms(3) by (rule lip_mult_le) (use assms(4) in simp_all)
  show "0 \<le> x * x" by simp
  have "\<bar>x\<bar> * \<bar>x\<bar> \<le> 1 * 1" using assms(1) by (intro mult_mono) auto
  then show "x * x \<le> 1" by simp
qed

lemma affine_square:
  fixes t t' :: real
  assumes "0 \<le> t" "t \<le> 1" "0 \<le> t'" "t' \<le> 1" "\<bar>t - t'\<bar> \<le> 2 * d"
  shows "\<bar>- 1 + 2 * t\<bar> \<le> 1" "\<bar>(- 1 + 2 * t) - (- 1 + 2 * t')\<bar> \<le> 4 * d"
    "\<bar>- 3 + 4 * t\<bar> \<le> 3" "\<bar>(- 3 + 4 * t) - (- 3 + 4 * t')\<bar> \<le> 8 * d"
  using assms by linarith+

lemma deltasigma_lipschitz:
  fixes b S C c S' C' c' d :: real
  assumes b: "\<bar>b\<bar> \<le> 1 / 10"
    and bd: "\<bar>S\<bar> \<le> 1" "\<bar>C\<bar> \<le> 1" "\<bar>c\<bar> \<le> 1" "\<bar>S'\<bar> \<le> 1" "\<bar>C'\<bar> \<le> 1" "\<bar>c'\<bar> \<le> 1"
    and df: "\<bar>S - S'\<bar> \<le> 1 * d" "\<bar>C - C'\<bar> \<le> 1 * d" "\<bar>c - c'\<bar> \<le> 1 * d"
  shows "\<bar>b * (S * (c + b / 4 * (C * (- 1 + 2 * (c * c))
             - b / 6 * (c * (- 3 + 4 * (S * S)) * (- 3 + 4 * (c * c))))))
         - b * (S' * (c' + b / 4 * (C' * (- 1 + 2 * (c' * c'))
             - b / 6 * (c' * (- 3 + 4 * (S' * S')) * (- 3 + 4 * (c' * c'))))))\<bar> \<le> 1 / 2 * d"
proof -
  have d0: "0 \<le> d" using df(1) by linarith
  note cc = lip_square [OF bd(3) bd(6) df(3) d0]
  note SS = lip_square [OF bd(1) bd(4) df(1) d0]
  have ccq: "0 \<le> c' * c'" "c' * c' \<le> 1" "0 \<le> S' * S'" "S' * S' \<le> 1"
    using lip_square(3) [of c' c' 0] lip_square(3) [of S' S' 0] bd by simp_all
  define P where "P = - 1 + 2 * (c * c)"
  define P' where "P' = - 1 + 2 * (c' * c')"
  define Q where "Q = - 3 + 4 * (S * S)"
  define Q' where "Q' = - 3 + 4 * (S' * S')"
  define W where "W = - 3 + 4 * (c * c)"
  define W' where "W' = - 3 + 4 * (c' * c')"
  have P: "\<bar>P\<bar> \<le> 1" "\<bar>P - P'\<bar> \<le> 4 * d"
    unfolding P_def P'_def by (rule affine_square [OF cc(2,3) ccq(1,2) cc(1)])+
  have P': "\<bar>P'\<bar> \<le> 1"
    unfolding P'_def by (rule affine_square(1) [OF ccq(1,2) ccq(1,2), of 0]) simp
  have Q: "\<bar>Q\<bar> \<le> 3" "\<bar>Q - Q'\<bar> \<le> 8 * d"
    unfolding Q_def Q'_def by (rule affine_square [OF SS(2,3) ccq(3,4) SS(1)])+
  have Q': "\<bar>Q'\<bar> \<le> 3"
    unfolding Q'_def by (rule affine_square(3) [OF ccq(3,4) ccq(3,4), of 0]) simp
  have W: "\<bar>W\<bar> \<le> 3" "\<bar>W - W'\<bar> \<le> 8 * d"
    unfolding W_def W'_def by (rule affine_square [OF cc(2,3) ccq(1,2) cc(1)])+
  have W': "\<bar>W'\<bar> \<le> 3"
    unfolding W'_def by (rule affine_square(3) [OF ccq(1,2) ccq(1,2), of 0]) simp
  have CP: "\<bar>C * P - C' * P'\<bar> \<le> 5 * d"
    using bd(2) P' df(2) P(2) by (rule lip_mult_le) (use d0 in simp_all)
  have cQ': "\<bar>c' * Q'\<bar> \<le> 1 * 3" using bd(6) Q' by (rule bound_mult)
  have cQ1: "\<bar>c * Q\<bar> \<le> 1 * 3" using bd(3) Q(1) by (rule bound_mult)
  have cQ: "\<bar>c * Q - c' * Q'\<bar> \<le> 11 * d"
    using bd(3) Q' df(3) Q(2) by (rule lip_mult_le) (use d0 in simp_all)
  have cQW: "\<bar>c * Q * W - c' * Q' * W'\<bar> \<le> 57 * d"
    using cQ1 W' cQ W(2) by (rule lip_mult_le) (use d0 in simp_all)
  have cQW': "\<bar>c' * Q' * W'\<bar> \<le> 1 * 3 * 3" using cQ' W' by (rule bound_mult)
  have CP': "\<bar>C' * P'\<bar> \<le> 1 * 1" using bd(5) P' by (rule bound_mult)
  have b6: "\<bar>b / 6\<bar> \<le> 1 / 60" and b4: "\<bar>b / 4\<bar> \<le> 1 / 40" using b by simp_all
  have bQ: "\<bar>b / 6 * (c * Q * W) - b / 6 * (c' * Q' * W')\<bar> \<le> 1 * d"
    using b6 cQW d0 by (rule lip_scale) simp
  have bQ': "\<bar>b / 6 * (c' * Q' * W')\<bar> \<le> 1 / 60 * (1 * 3 * 3)" using b6 cQW' by (rule bound_mult)
  define G where "G = C * P - b / 6 * (c * Q * W)"
  define G' where "G' = C' * P' - b / 6 * (c' * Q' * W')"
  have G: "\<bar>G - G'\<bar> \<le> 6 * d" "\<bar>G'\<bar> \<le> 2"
    using CP bQ CP' bQ' unfolding G_def G'_def by linarith+
  have bG: "\<bar>b / 4 * G - b / 4 * G'\<bar> \<le> 1 / 4 * d"
    using b4 G(1) d0 by (rule lip_scale) simp
  have bG': "\<bar>b / 4 * G'\<bar> \<le> 1 / 40 * 2" using b4 G(2) by (rule bound_mult)
  define E where "E = c + b / 4 * G"
  define E' where "E' = c' + b / 4 * G'"
  have E: "\<bar>E - E'\<bar> \<le> 5 / 4 * d" "\<bar>E'\<bar> \<le> 2"
    using bd(6) df(3) bG bG' unfolding E_def E'_def by linarith+
  have SE: "\<bar>S * E - S' * E'\<bar> \<le> 5 * d"
    using bd(1) E(2) df(1) E(1) by (rule lip_mult_le) (use d0 in simp_all)
  have "\<bar>b * (S * E) - b * (S' * E')\<bar> \<le> 1 / 2 * d"
    using b SE d0 by (rule lip_scale) simp
  then show ?thesis
    unfolding E_def E'_def G_def G'_def P_def P'_def Q_def Q'_def W_def W'_def .
qed

lemma VincentyProjection_body_contraction:
  assumes "\<bar>b\<bar> \<le> 1 / 10"
  shows "\<bar>VincentyProjection_body s b0 a b sigma1 x - VincentyProjection_body s b0 a b sigma1 y\<bar>
         \<le> 1 / 2 * \<bar>x - y\<bar>"
proof -
  have "\<bar>cos (2 * sigma1 + x) - cos (2 * sigma1 + y)\<bar> \<le> \<bar>(2 * sigma1 + x) - (2 * sigma1 + y)\<bar>"
    by (rule cos_lipschitz)
  then have c: "\<bar>cos (2 * sigma1 + x) - cos (2 * sigma1 + y)\<bar> \<le> 1 * \<bar>x - y\<bar>" by simp
  have s: "\<bar>sin x - sin y\<bar> \<le> 1 * \<bar>x - y\<bar>" "\<bar>cos x - cos y\<bar> \<le> 1 * \<bar>x - y\<bar>"
    using sin_lipschitz [of x y] cos_lipschitz [of x y] by simp_all
  have "\<bar>b * (sin x * (cos (2 * sigma1 + x) + b / 4 * (cos x * (- 1 + 2 * (cos (2 * sigma1 + x) * cos (2 * sigma1 + x)))
             - b / 6 * (cos (2 * sigma1 + x) * (- 3 + 4 * (sin x * sin x)) * (- 3 + 4 * (cos (2 * sigma1 + x) * cos (2 * sigma1 + x)))))))
         - b * (sin y * (cos (2 * sigma1 + y) + b / 4 * (cos y * (- 1 + 2 * (cos (2 * sigma1 + y) * cos (2 * sigma1 + y)))
             - b / 6 * (cos (2 * sigma1 + y) * (- 3 + 4 * (sin y * sin y)) * (- 3 + 4 * (cos (2 * sigma1 + y) * cos (2 * sigma1 + y)))))))\<bar>
        \<le> 1 / 2 * \<bar>x - y\<bar>"
    by (rule deltasigma_lipschitz [OF assms _ _ _ _ _ _ s c]) simp_all
  then show ?thesis
    unfolding VincentyProjection_body_def Let_def by (simp only: mult.assoc add_diff_add diff_self add_0)
qed

lemma contraction_rounds:
  fixes f :: "real \<Rightarrow> real"
  assumes "\<And>x y. \<bar>f x - f y\<bar> \<le> 1 / 2 * \<bar>x - y\<bar>"
  shows "\<bar>(f ^^ Suc n) x - (f ^^ n) x\<bar> \<le> (1 / 2) ^ n * \<bar>f x - x\<bar>"
proof (induction n)
  case 0
  show ?case by simp
next
  case (Suc n)
  have "\<bar>(f ^^ Suc (Suc n)) x - (f ^^ Suc n) x\<bar> \<le> 1 / 2 * \<bar>(f ^^ Suc n) x - (f ^^ n) x\<bar>"
    using assms [of "(f ^^ Suc n) x" "(f ^^ n) x"] by simp
  also have "\<dots> \<le> 1 / 2 * ((1 / 2) ^ n * \<bar>f x - x\<bar>)"
    using Suc.IH by (intro mult_left_mono) simp_all
  finally show ?case by simp
qed

lemma contraction_converges:
  fixes f :: "real \<Rightarrow> real"
  assumes "\<And>x y. \<bar>f x - f y\<bar> \<le> 1 / 2 * \<bar>x - y\<bar>" and "0 < eps"
  shows "\<exists>n. \<not> \<bar>(f ^^ Suc n) x - (f ^^ n) x\<bar> > eps"
proof -
  have "0 < eps / (\<bar>f x - x\<bar> + 1)" using assms(2) by simp
  then obtain n where n: "(1 / 2 :: real) ^ n < eps / (\<bar>f x - x\<bar> + 1)"
    using real_arch_pow_inv [of "eps / (\<bar>f x - x\<bar> + 1)" "1 / 2"] by auto
  have "\<bar>(f ^^ Suc n) x - (f ^^ n) x\<bar> \<le> (1 / 2) ^ n * \<bar>f x - x\<bar>"
    using assms(1) by (rule contraction_rounds)
  also have "\<dots> \<le> (1 / 2) ^ n * (\<bar>f x - x\<bar> + 1)"
    by (intro mult_left_mono) simp_all
  also have "\<dots> \<le> eps"
    using n by (simp add: pos_less_divide_eq less_imp_le)
  finally show ?thesis by (intro exI [of _ n]) simp
qed

lemma VincentyProjection_loop_total:
  assumes "\<bar>b\<bar> \<le> 1 / 10"
  shows "\<exists>sg. VincentyProjection_loop s b0 a b sigma1 sg0 = Some sg"
proof -
  have "\<exists>n. \<not> \<bar>(VincentyProjection_body s b0 a b sigma1 ^^ Suc n) sg0
              - (VincentyProjection_body s b0 a b sigma1 ^^ n) sg0\<bar> > EPSILON"
    by (rule contraction_converges [OF VincentyProjection_body_contraction [OF assms]])
      (simp add: EPSILON_def)
  then obtain m where m: "\<not> \<bar>(VincentyProjection_body s b0 a b sigma1 ^^ Suc m) sg0
              - (VincentyProjection_body s b0 a b sigma1 ^^ m) sg0\<bar> > EPSILON" by blast
  define far where "far = (\<lambda>k. \<bar>(VincentyProjection_body s b0 a b sigma1 ^^ Suc k) sg0
              - (VincentyProjection_body s b0 a b sigma1 ^^ k) sg0\<bar> > EPSILON)"
  define n where "n = (LEAST k. \<not> far k)"
  have "\<not> far m" using m by (simp add: far_def)
  then have "\<not> far n" unfolding n_def by (rule LeastI)
  moreover have "\<forall>k<n. far k" unfolding n_def using not_less_Least by blast
  ultimately have "VincentyProjection_loop s b0 a b sigma1 sg0
      = Some (VincentyProjection_body s b0 a b sigma1 ((VincentyProjection_body s b0 a b sigma1 ^^ n) sg0))"
    using VincentyProjection_loop_returns [of s b0 a b sigma1 sg0
        "VincentyProjection_body s b0 a b sigma1 ((VincentyProjection_body s b0 a b sigma1 ^^ n) sg0)"]
    unfolding far_def by auto
  then show ?thesis by blast
qed

lemma VincentyProjection_first_step:
  assumes "\<bar>b\<bar> \<le> 1 / 10"
  shows "\<bar>VincentyProjection_body s b0 a b sigma1 (s / (b0 * a)) - s / (b0 * a)\<bar> \<le> 1 / 2"
proof -
  define x where "x = s / (b0 * a)"
  have "\<bar>b * (sin x * (cos (2 * sigma1 + x) + b / 4 * (cos x * (- 1 + 2 * (cos (2 * sigma1 + x) * cos (2 * sigma1 + x)))
             - b / 6 * (cos (2 * sigma1 + x) * (- 3 + 4 * (sin x * sin x)) * (- 3 + 4 * (cos (2 * sigma1 + x) * cos (2 * sigma1 + x)))))))
         - b * (0 * (cos (2 * sigma1 + x) + b / 4 * (cos x * (- 1 + 2 * (cos (2 * sigma1 + x) * cos (2 * sigma1 + x)))
             - b / 6 * (cos (2 * sigma1 + x) * (- 3 + 4 * (0 * 0)) * (- 3 + 4 * (cos (2 * sigma1 + x) * cos (2 * sigma1 + x)))))))\<bar>
        \<le> 1 / 2 * 1"
    by (rule deltasigma_lipschitz [OF assms]) simp_all
  then show ?thesis
    unfolding VincentyProjection_body_def Let_def x_def by (simp add: mult.assoc)
qed

lemma VincentyProjection_loop_bounded:
  assumes "\<bar>b\<bar> \<le> 1 / 10"
  shows "\<exists>n\<le>44. (\<forall>k<n. \<bar>(VincentyProjection_body s b0 a b sigma1 ^^ Suc k) (s / (b0 * a))
                       - (VincentyProjection_body s b0 a b sigma1 ^^ k) (s / (b0 * a))\<bar> > EPSILON)
          \<and> \<not> \<bar>(VincentyProjection_body s b0 a b sigma1 ^^ Suc n) (s / (b0 * a))
                       - (VincentyProjection_body s b0 a b sigma1 ^^ n) (s / (b0 * a))\<bar> > EPSILON
          \<and> VincentyProjection_loop s b0 a b sigma1 (s / (b0 * a))
              = Some ((VincentyProjection_body s b0 a b sigma1 ^^ Suc n) (s / (b0 * a)))"
proof -
  define f where "f = VincentyProjection_body s b0 a b sigma1"
  define x where "x = s / (b0 * a)"
  define far where "far = (\<lambda>k. \<bar>(f ^^ Suc k) x - (f ^^ k) x\<bar> > EPSILON)"
  have c: "\<bar>f u - f v\<bar> \<le> 1 / 2 * \<bar>u - v\<bar>" for u v
    unfolding f_def by (rule VincentyProjection_body_contraction [OF assms])
  have "\<bar>(f ^^ Suc 44) x - (f ^^ 44) x\<bar> \<le> (1 / 2) ^ 44 * \<bar>f x - x\<bar>"
    using c by (rule contraction_rounds)
  also have "\<dots> \<le> (1 / 2) ^ 44 * (1 / 2)"
    using VincentyProjection_first_step [OF assms, of s b0 a sigma1]
    by (intro mult_left_mono) (simp_all add: f_def x_def)
  also have "\<dots> \<le> EPSILON" by (simp add: EPSILON_def power_divide)
  finally have "\<not> far 44" by (simp only: far_def not_less)
  define n where "n = (LEAST k. \<not> far k)"
  have n: "\<not> far n" unfolding n_def using \<open>\<not> far 44\<close> by (rule LeastI)
  have le: "n \<le> 44" unfolding n_def using \<open>\<not> far 44\<close> by (rule Least_le)
  have before: "\<forall>k<n. far k" unfolding n_def using not_less_Least by blast
  have "VincentyProjection_loop s b0 a b sigma1 x = Some (f ((f ^^ n) x))"
    using VincentyProjection_loop_returns [of s b0 a b sigma1 x "f ((f ^^ n) x)"] n before
    unfolding far_def f_def by auto
  with n le before show ?thesis
    unfolding far_def f_def x_def by (intro exI [of _ n]) simp
qed

lemma Vincenty_b_bound:
  fixes u :: real
  assumes "0 \<le> u" "u \<le> 1 / 100"
  shows "\<bar>u / 1024 * (256 + u * (- 128 + u * (74 - 47 * u)))\<bar> \<le> 1 / 10"
proof -
  have 1: "0 \<le> u * (74 - 47 * u)" "u * (74 - 47 * u) \<le> 1"
    using assms mult_mono [of u "1 / 100" "74 - 47 * u" 74] by (auto intro: mult_nonneg_nonneg)
  define v where "v = - 128 + u * (74 - 47 * u)"
  have v: "- 128 \<le> v" "v \<le> 0" using 1 by (auto simp: v_def)
  have 2: "- 2 \<le> u * v" "u * v \<le> 0"
    using assms v mult_mono [of u "1 / 100" "- v" 128] by (auto simp: mult_le_0_iff)
  define w where "w = 256 + u * v"
  have w: "0 \<le> w" "w \<le> 256" using 2 by (auto simp: w_def)
  have "0 \<le> u / 1024 * w" "u / 1024 * w \<le> 1 / 102400 * 256"
    using assms w mult_mono [of "u / 1024" "1 / 102400" w 256] by auto
  then have "\<bar>u / 1024 * w\<bar> \<le> 1 / 10" by simp
  then show ?thesis by (simp only: w_def v_def)
qed

lemma Vincenty_usqr_bound:
  fixes sa :: real
  assumes "\<bar>sa\<bar> \<le> 1"
  shows "0 \<le> sqrt (1 - sa * sa) * sqrt (1 - sa * sa)
              * (m_a m_Ellipsoid * m_a m_Ellipsoid
                  - m_a m_Ellipsoid * (1 - 1 / m_fInv m_Ellipsoid) * (m_a m_Ellipsoid * (1 - 1 / m_fInv m_Ellipsoid)))
              / (m_a m_Ellipsoid * (1 - 1 / m_fInv m_Ellipsoid) * (m_a m_Ellipsoid * (1 - 1 / m_fInv m_Ellipsoid)))"
    and "sqrt (1 - sa * sa) * sqrt (1 - sa * sa)
              * (m_a m_Ellipsoid * m_a m_Ellipsoid
                  - m_a m_Ellipsoid * (1 - 1 / m_fInv m_Ellipsoid) * (m_a m_Ellipsoid * (1 - 1 / m_fInv m_Ellipsoid)))
              / (m_a m_Ellipsoid * (1 - 1 / m_fInv m_Ellipsoid) * (m_a m_Ellipsoid * (1 - 1 / m_fInv m_Ellipsoid)))
         \<le> 1 / 100"
proof -
  define K :: real where "K = (m_a m_Ellipsoid * m_a m_Ellipsoid
                  - m_a m_Ellipsoid * (1 - 1 / m_fInv m_Ellipsoid) * (m_a m_Ellipsoid * (1 - 1 / m_fInv m_Ellipsoid)))
              / (m_a m_Ellipsoid * (1 - 1 / m_fInv m_Ellipsoid) * (m_a m_Ellipsoid * (1 - 1 / m_fInv m_Ellipsoid)))"
  have K: "0 \<le> K" "K \<le> 1 / 100" by (simp_all add: K_def m_Ellipsoid_def)
  have "\<bar>sa\<bar> * \<bar>sa\<bar> \<le> 1 * 1" using assms by (intro mult_mono) auto
  then have sa: "0 \<le> 1 - sa * sa" "1 - sa * sa \<le> 1" by simp_all
  define q where "q = sqrt (1 - sa * sa) * sqrt (1 - sa * sa)"
  have q: "q = 1 - sa * sa" using sa(1) by (simp add: q_def)
  have "0 \<le> q * K" "q * K \<le> 1 * (1 / 100)"
    using K sa mult_mono [of q 1 K "1 / 100"] by (auto simp: q)
  then show "0 \<le> sqrt (1 - sa * sa) * sqrt (1 - sa * sa)
              * (m_a m_Ellipsoid * m_a m_Ellipsoid
                  - m_a m_Ellipsoid * (1 - 1 / m_fInv m_Ellipsoid) * (m_a m_Ellipsoid * (1 - 1 / m_fInv m_Ellipsoid)))
              / (m_a m_Ellipsoid * (1 - 1 / m_fInv m_Ellipsoid) * (m_a m_Ellipsoid * (1 - 1 / m_fInv m_Ellipsoid)))"
    "sqrt (1 - sa * sa) * sqrt (1 - sa * sa)
              * (m_a m_Ellipsoid * m_a m_Ellipsoid
                  - m_a m_Ellipsoid * (1 - 1 / m_fInv m_Ellipsoid) * (m_a m_Ellipsoid * (1 - 1 / m_fInv m_Ellipsoid)))
              / (m_a m_Ellipsoid * (1 - 1 / m_fInv m_Ellipsoid) * (m_a m_Ellipsoid * (1 - 1 / m_fInv m_Ellipsoid)))
         \<le> 1 / 100"
    unfolding q_def K_def by simp_all
qed

lemma case_option_returns:
  "\<exists>y. x = Some y \<Longrightarrow> \<exists>P. (case x of None \<Rightarrow> None | Some y \<Rightarrow> Some (g y)) = Some P"
  by auto

lemma VincentyProjection_returns:
  "\<exists>P. VincentyProjection this dAzimuth dDistance = Some P"
proof -
  have sa: "\<bar>cos u * sin v\<bar> \<le> 1" for u v :: real
    using bound_mult [of "cos u" 1 "sin v" 1] by simp
  show ?thesis
    unfolding VincentyProjection_def Let_def
    by (rule case_option_returns, rule VincentyProjection_loop_total, rule Vincenty_b_bound;
        rule Vincenty_usqr_bound, rule sa)
qed
















subsection \<open>UTM round trip in the southern hemisphere\<close>

lemma GetZone_P0: "GetZone \<lparr>m_Latitude = - 1, m_Longitude = 3\<rparr> = 31"
  by (simp add: GetZone_def Let_def int_rem_def double_to_int_def)

lemma GetZoneLetter_P0: "GetZoneLetter \<lparr>m_Latitude = - 1, m_Longitude = 3\<rparr> = CHR ''M''"
  by (simp add: GetZoneLetter_def Let_def double_to_int_def m_strZoneLetters_def)

lemma fmod_183: "fmod 183 360 = 183"
  by (simp add: fmod_def double_to_int_def)

lemma toupper_M: "toupper (CHR ''M'') = CHR ''M''"
  by (simp add: toupper_def)

lemma M_in_table: "string_find m_strZoneLetters (CHR ''M'') \<noteq> None"
  by (simp add: string_find_None m_strZoneLetters_def)

lemma abs_sum4:
  fixes a b c d :: real
  assumes "\<bar>a\<bar> \<le> 2 / 100" "\<bar>b\<bar> \<le> 3 / 1000" "\<bar>c\<bar> \<le> 1 / 1000" "\<bar>d\<bar> \<le> 1 / 1000"
  shows "\<bar>a - b + c - d\<bar> \<le> 25 / 1000"
  using assms by linarith

lemma ToUTM_P0:
  "\<exists>M::real. \<bar>M\<bar> \<le> 200000 \<and>
     ToUTM \<lparr>m_Latitude = - 1, m_Longitude = 3\<rparr>
       = \<lparr>utm_zone = 31, utm_letter = CHR ''M'', utm_easting = 500000,
          utm_northing = of_int \<lfloor>0.9996 * M + 10000000 + 0.5\<rfloor>\<rparr>"
proof -
  define e :: real where "e = 2 * (1 / 298.257223563) - 1 / 298.257223563 * (1 / 298.257223563)"
  define s2 s4 s6 where "s2 = sin (2 * (- 1 * m_Deg2Rad))" and "s4 = sin (4 * (- 1 * m_Deg2Rad))"
    and "s6 = sin (6 * (- 1 * m_Deg2Rad))"
  define M where "M = 6378137 * ((1 - e / 4 - 3 * e * e / 64 - 5 * e * e * e / 256) * (- 1 * m_Deg2Rad)
                 - (3 * e / 8 + 3 * e * e / 32 + 45 * e * e * e / 1024) * s2
                 + (15 * e * e / 256 + 45 * e * e * e / 1024) * s4
                 - (35 * e * e * e / 3072) * s6)"
  have s: "\<bar>s2\<bar> \<le> 1" "\<bar>s4\<bar> \<le> 1" "\<bar>s6\<bar> \<le> 1"
    by (simp_all add: s2_def s4_def s6_def)
  have c0: "0 \<le> 1 - e / 4 - 3 * e * e / 64 - 5 * e * e * e / 256"
    "1 - e / 4 - 3 * e * e / 64 - 5 * e * e * e / 256 \<le> 1"
    and c2: "0 \<le> 3 * e / 8 + 3 * e * e / 32 + 45 * e * e * e / 1024"
    "3 * e / 8 + 3 * e * e / 32 + 45 * e * e * e / 1024 \<le> 0.003"
    and c4: "0 \<le> 15 * e * e / 256 + 45 * e * e * e / 1024"
    "15 * e * e / 256 + 45 * e * e * e / 1024 \<le> 0.001"
    and c6: "0 \<le> 35 * e * e * e / 3072" "35 * e * e * e / 3072 \<le> 0.001"
    by (simp_all add: e_def)
  define k0 k2 k4 k6 where "k0 = 1 - e / 4 - 3 * e * e / 64 - 5 * e * e * e / 256"
    and "k2 = 3 * e / 8 + 3 * e * e / 32 + 45 * e * e * e / 1024"
    and "k4 = 15 * e * e / 256 + 45 * e * e * e / 1024"
    and "k6 = 35 * e * e * e / 3072"
  have k: "0 \<le> k0" "k0 \<le> 1" "0 \<le> k2" "k2 \<le> 0.003" "0 \<le> k4" "k4 \<le> 0.001" "0 \<le> k6" "k6 \<le> 0.001"
    using c0 c2 c4 c6 by (simp_all add: k0_def k2_def k4_def k6_def)
  have t0: "\<bar>k0 * (- 1 * m_Deg2Rad)\<bar> \<le> 0.02"
  proof -
    have "\<bar>k0 * (- 1 * m_Deg2Rad)\<bar> = k0 * m_Deg2Rad" using k by (simp add: abs_mult m_Deg2Rad_def)
    also have "\<dots> \<le> 1 * m_Deg2Rad" using k by (intro mult_right_mono) (auto simp: m_Deg2Rad_def)
    also have "\<dots> \<le> 0.02" by (simp add: m_Deg2Rad_def)
    finally show ?thesis .
  qed
  have t2: "\<bar>k2 * s2\<bar> \<le> 0.003"
    using mult_mono [of k2 "0.003" "\<bar>s2\<bar>" 1] k s by (simp add: abs_mult)
  have t4: "\<bar>k4 * s4\<bar> \<le> 0.001"
    using mult_mono [of k4 "0.001" "\<bar>s4\<bar>" 1] k s by (simp add: abs_mult)
  have t6: "\<bar>k6 * s6\<bar> \<le> 0.001"
    using mult_mono [of k6 "0.001" "\<bar>s6\<bar>" 1] k s by (simp add: abs_mult)
  define X where "X = k0 * (- 1 * m_Deg2Rad) - k2 * s2 + k4 * s4 - k6 * s6"
  have X: "\<bar>X\<bar> \<le> 25 / 1000"
    unfolding X_def
    using abs_sum4 [of "k0 * (- 1 * m_Deg2Rad)" "k2 * s2" "k4 * s4" "k6 * s6"] t0 t2 t4 t6
    by simp
  have "M = 6378137 * X"
    by (simp only: M_def X_def k0_def k2_def k4_def k6_def)
  moreover have "\<bar>6378137 * X\<bar> \<le> 200000"
    using X by (simp add: abs_mult)
  ultimately have Mb: "\<bar>M\<bar> \<le> 200000" by simp
  have "ToUTM \<lparr>m_Latitude = - 1, m_Longitude = 3\<rparr>
       = \<lparr>utm_zone = 31, utm_letter = CHR ''M'', utm_easting = 500000,
          utm_northing = of_int \<lfloor>0.9996 * M + 10000000 + 0.5\<rfloor>\<rparr>"
    unfolding ToUTM_def Let_def GetZone_P0 GetZoneLetter_P0 M_def s2_def s4_def s6_def e_def
      m_Ellipsoid_def
    by (simp add: fmod_183)
  with Mb show ?thesis by blast
qed

lemma ConvertUTM_central_meridian:
  "ConvertUTM this iZone (CHR ''M'') 500000 n =
     (let a = m_a m_Ellipsoid;
          flat = 1 / m_fInv m_Ellipsoid;
          ecc2 = 2 * flat - flat * flat;
          e1 = (1 - sqrt (1 - ecc2)) / (1 + sqrt (1 - ecc2));
          y = n - 1000000;
          M = y / 0.9996;
          mu = M / (a * (1 - ecc2 / 4 - 3 * ecc2 * ecc2 / 64 - 5 * ecc2 * ecc2 * ecc2 / 256));
          phi1 = mu + (3 * e1 / 2 - 27 * e1 * e1 * e1 / 32) * sin (2 * mu)
                    + (21 * e1 * e1 / 16 - 55 * e1 * e1 * e1 * e1 / 32) * sin (4 * mu)
                    + (151 * e1 * e1 * e1 / 96) * sin (6 * mu)
      in (True, this\<lparr>m_Latitude := phi1 / m_Deg2Rad,
                      m_Longitude := (of_int (iZone - 1) * 6 - 180 + 3) * m_Deg2Rad / m_Deg2Rad\<rparr>))"
  unfolding ConvertUTM_def Let_def toupper_M
  using M_in_table by simp

lemma footpoint_lower:
  fixes mu e1 s2 s4 s6 :: real
  assumes e1: "0 \<le> e1" "e1 \<le> 6 / 1000"
    and s: "\<bar>s2\<bar> \<le> 1" "\<bar>s4\<bar> \<le> 1" "\<bar>s6\<bar> \<le> 1"
    and mu: "137 / 100 \<le> mu"
  shows "13 / 10 \<le> mu + (3 * e1 / 2 - 27 * e1 * e1 * e1 / 32) * s2
                         + (21 * e1 * e1 / 16 - 55 * e1 * e1 * e1 * e1 / 32) * s4
                         + (151 * e1 * e1 * e1 / 96) * s6"
proof -
  define p2 p3 p4 where "p2 = e1 * e1" and "p3 = e1 * e1 * e1" and "p4 = e1 * e1 * e1 * e1"
  have p2: "0 \<le> p2" "p2 \<le> e1"
    using e1 mult_left_le [of e1 e1] by (auto simp: p2_def)
  have p3_eq: "p3 = p2 * e1" by (simp add: p3_def p2_def)
  have "p2 * e1 \<le> p2" using mult_left_le [of e1 p2] e1 p2 by simp
  moreover have "0 \<le> p2 * e1" using e1 p2 by (intro mult_nonneg_nonneg)
  ultimately have p3: "0 \<le> p3" "p3 \<le> e1" using p2 by (simp_all add: p3_eq)
  have p4_eq: "p4 = p3 * e1" by (simp add: p4_def p3_def)
  have "p3 * e1 \<le> p3" using mult_left_le [of e1 p3] e1 p3 by simp
  moreover have "0 \<le> p3 * e1" using e1 p3 by (intro mult_nonneg_nonneg)
  ultimately have p4: "0 \<le> p4" "p4 \<le> e1" using p3 by (simp_all add: p4_eq)
  define c2 c4 c6 where "c2 = 3 * e1 / 2 - 27 * p3 / 32" and "c4 = 21 * p2 / 16 - 55 * p4 / 32"
    and "c6 = 151 * p3 / 96"
  have c: "\<bar>c2\<bar> \<le> 3 * e1" "\<bar>c4\<bar> \<le> 4 * e1" "\<bar>c6\<bar> \<le> 2 * e1"
    using e1 p2 p3 p4 unfolding c2_def c4_def c6_def by linarith+
  have t2: "\<bar>c2 * s2\<bar> \<le> 3 * e1"
    using mult_mono [of "\<bar>c2\<bar>" "3 * e1" "\<bar>s2\<bar>" 1] c s e1 by (simp add: abs_mult)
  have t4: "\<bar>c4 * s4\<bar> \<le> 4 * e1"
    using mult_mono [of "\<bar>c4\<bar>" "4 * e1" "\<bar>s4\<bar>" 1] c s e1 by (simp add: abs_mult)
  have t6: "\<bar>c6 * s6\<bar> \<le> 2 * e1"
    using mult_mono [of "\<bar>c6\<bar>" "2 * e1" "\<bar>s6\<bar>" 1] c s e1 by (simp add: abs_mult)
  have "13 / 10 \<le> mu + c2 * s2 + c4 * s4 + c6 * s6"
    using t2 t4 t6 e1 mu by linarith
  then show ?thesis
    by (simp only: c2_def c4_def c6_def p2_def p3_def p4_def mult.assoc)
qed

lemma wgs84_e1:
  fixes e :: real
  assumes e: "6694 / 1000000 < e" "e < 6695 / 1000000"
  shows "0 \<le> (1 - sqrt (1 - e)) / (1 + sqrt (1 - e))"
    "(1 - sqrt (1 - e)) / (1 + sqrt (1 - e)) \<le> 6 / 1000"
proof -
  define q where "q = sqrt (1 - e)"
  have "(99 / 100)\<^sup>2 \<le> 1 - e" using e by (simp add: power2_eq_square)
  then have q1: "99 / 100 \<le> q" unfolding q_def by (rule real_le_rsqrt)
  have q2: "q \<le> 1" unfolding q_def using e by simp
  show "0 \<le> (1 - sqrt (1 - e)) / (1 + sqrt (1 - e))"
    using q1 q2 unfolding q_def [symmetric] by simp
  have "(1 - q) / (1 + q) \<le> (1 / 100) / (199 / 100)"
    using q1 q2 by (intro frac_le) auto
  moreover have "(1 / 100) / (199 / 100) \<le> (6 / 1000 :: real)" by simp
  ultimately have "(1 - q) / (1 + q) \<le> 6 / 1000" by (rule order_trans)
  then show "(1 - sqrt (1 - e)) / (1 + sqrt (1 - e)) \<le> 6 / 1000"
    by (simp only: q_def)
qed

lemma wgs84_mu:
  fixes n e :: real
  assumes n: "9800000 \<le> n" and e: "6694 / 1000000 < e" "e < 6695 / 1000000"
  shows "137 / 100 \<le> (n - 1000000) / 0.9996
      / (6378137 * (1 - e / 4 - 3 * e * e / 64 - 5 * e * e * e / 256))"
proof -
  define k where "k = 1 - e / 4 - 3 * e * e / 64 - 5 * e * e * e / 256"
  have ee: "0 \<le> e * e" "e * e \<le> 1" "0 \<le> e * e * e" "e * e * e \<le> 1"
    using e mult_mono [of e 1 e 1] mult_mono [of "e * e" 1 e 1] by auto
  have k: "9 / 10 \<le> k" "k \<le> 1"
    using e ee unfolding k_def by linarith+
  have d: "0 < 6378137 * k" "6378137 * k \<le> 6378137" using k by auto
  have "8800000 \<le> (n - 1000000) / 0.9996" using n by simp
  then have "8800000 / 6378137 \<le> (n - 1000000) / 0.9996 / (6378137 * k)"
    using d by (intro frac_le) auto
  moreover have "(137 / 100 :: real) \<le> 8800000 / 6378137" by simp
  ultimately show ?thesis unfolding k_def by linarith
qed

lemma ConvertUTM_south:
  assumes n: "9800000 \<le> n"
  shows "fst (ConvertUTM this 31 (CHR ''M'') 500000 n)
         \<and> 70 < m_Latitude (snd (ConvertUTM this 31 (CHR ''M'') 500000 n))"
proof -
  define e :: real where "e = 2 * (1 / 298.257223563) - 1 / 298.257223563 * (1 / 298.257223563)"
  have e: "6694 / 1000000 < e" "e < 6695 / 1000000"
    by (simp_all add: e_def)
  define e1 where "e1 = (1 - sqrt (1 - e)) / (1 + sqrt (1 - e))"
  define mu where "mu = (n - 1000000) / 0.9996
      / (6378137 * (1 - e / 4 - 3 * e * e / 64 - 5 * e * e * e / 256))"
  define phi1 where "phi1 = mu + (3 * e1 / 2 - 27 * e1 * e1 * e1 / 32) * sin (2 * mu)
                         + (21 * e1 * e1 / 16 - 55 * e1 * e1 * e1 * e1 / 32) * sin (4 * mu)
                         + (151 * e1 * e1 * e1 / 96) * sin (6 * mu)"
  have "13 / 10 \<le> phi1"
    unfolding phi1_def
    using wgs84_e1 [OF e] wgs84_mu [OF n e]
    by (intro footpoint_lower) (simp_all add: e1_def mu_def)
  then have "13 / 10 / m_Deg2Rad \<le> phi1 / m_Deg2Rad"
    by (intro divide_right_mono) (auto simp: m_Deg2Rad_def)
  moreover have "70 < 13 / 10 / m_Deg2Rad" by (simp add: m_Deg2Rad_def)
  ultimately have lat: "70 < phi1 / m_Deg2Rad" by linarith
  have "ConvertUTM this 31 (CHR ''M'') 500000 n
      = (True, this\<lparr>m_Latitude := phi1 / m_Deg2Rad,
                       m_Longitude := (of_int (31 - 1) * 6 - 180 + 3) * m_Deg2Rad / m_Deg2Rad\<rparr>)"
    unfolding ConvertUTM_central_meridian Let_def phi1_def mu_def e1_def e_def m_Ellipsoid_def
    by simp
  with lat show ?thesis by simp
qed

text \<open>
  C1 at the point of latitude -1 and longitude 3, on the central meridian of zone 31.
  \<open>ToUTM\<close> adds 10000000 to the northing of a southern point; \<open>ConvertUTM\<close> takes
  1000000 off when the letter is before \<open>N\<close>. The reference of the point converts (the
  flag is true) and the latitude that comes back is above 70 degrees: the round trip
  ends more than 71 degrees of latitude from its start, not within 1 m.
\<close>

theorem UTM_round_trip_south:
  "fst (ConvertUTM \<lparr>m_Latitude = - 1, m_Longitude = 3\<rparr>
          (utm_zone (ToUTM \<lparr>m_Latitude = - 1, m_Longitude = 3\<rparr>))
          (utm_letter (ToUTM \<lparr>m_Latitude = - 1, m_Longitude = 3\<rparr>))
          (utm_easting (ToUTM \<lparr>m_Latitude = - 1, m_Longitude = 3\<rparr>))
          (utm_northing (ToUTM \<lparr>m_Latitude = - 1, m_Longitude = 3\<rparr>)))
   \<and> 70 < m_Latitude (snd (ConvertUTM \<lparr>m_Latitude = - 1, m_Longitude = 3\<rparr>
          (utm_zone (ToUTM \<lparr>m_Latitude = - 1, m_Longitude = 3\<rparr>))
          (utm_letter (ToUTM \<lparr>m_Latitude = - 1, m_Longitude = 3\<rparr>))
          (utm_easting (ToUTM \<lparr>m_Latitude = - 1, m_Longitude = 3\<rparr>))
          (utm_northing (ToUTM \<lparr>m_Latitude = - 1, m_Longitude = 3\<rparr>))))"
proof -
  obtain M :: real where M: "\<bar>M\<bar> \<le> 200000"
    and u: "ToUTM \<lparr>m_Latitude = - 1, m_Longitude = 3\<rparr>
       = \<lparr>utm_zone = 31, utm_letter = CHR ''M'', utm_easting = 500000,
          utm_northing = of_int \<lfloor>0.9996 * M + 10000000 + 0.5\<rfloor>\<rparr>"
    using ToUTM_P0 by blast
  have "9800000 \<le> 0.9996 * M + 10000000 + 0.5" using M by (simp add: abs_le_iff)
  then have "(9800000::int) \<le> \<lfloor>0.9996 * M + 10000000 + 0.5\<rfloor>"
    by (simp add: le_floor_iff)
  then have "9800000 \<le> real_of_int \<lfloor>0.9996 * M + 10000000 + 0.5\<rfloor>"
    using of_int_le_iff [of 9800000 "\<lfloor>0.9996 * M + 10000000 + 0.5\<rfloor>", where 'a = real]
    by simp
  from ConvertUTM_south [OF this] show ?thesis by (simp add: u)
qed

subsection \<open>The range of the returned longitude\<close>

text \<open>
  \<open>SphericalProjection\<close> reduces its longitude with \<open>fmod (x + 180) 360 - 180\<close>. The
  argument of \<open>fmod\<close> is not negative because \<open>atan2\<close> is above \<open>- pi\<close> and \<open>pi\<close> is at
  most \<open>180 * m_Deg2Rad = 3.141592653589794\<close>; the bound on \<open>pi\<close> comes from Machin's
  formula and the alternating series of \<open>arctan\<close>.
\<close>

lemma arctan_partial_sums:
  fixes x :: real
  assumes x: "0 \<le> x" "x \<le> 1"
  shows "(\<Sum>i<2 * n. (- 1) ^ i * (1 / real (i * 2 + 1) * x ^ (i * 2 + 1))) \<le> arctan x"
    and "arctan x \<le> (\<Sum>i<2 * n + 1. (- 1) ^ i * (1 / real (i * 2 + 1) * x ^ (i * 2 + 1)))"
proof -
  define a where "a = (\<lambda>i. 1 / real (i * 2 + 1) * x ^ (i * 2 + 1))"
  have ax: "\<bar>x\<bar> \<le> 1" using x by simp
  have zero: "a \<longlonglongrightarrow> 0"
    unfolding a_def by (rule zeroseq_arctan_series [OF ax])
  have pos: "0 \<le> a i" for i
    using x by (simp add: a_def)
  have mono: "a (Suc i) \<le> a i" for i
  proof -
    have p: "x ^ (Suc i * 2 + 1) \<le> x ^ (i * 2 + 1)"
      using x by (intro power_decreasing) auto
    have "1 / real (Suc i * 2 + 1) \<le> 1 / real (i * 2 + 1)"
      by (intro divide_left_mono) auto
    then show ?thesis
      unfolding a_def using p x
      by (intro mult_mono) auto
  qed
  have s: "arctan x = (\<Sum>i. (- 1) ^ i * a i)"
    unfolding a_def by (rule arctan_series [OF ax])
  show "(\<Sum>i<2 * n. (- 1) ^ i * (1 / real (i * 2 + 1) * x ^ (i * 2 + 1))) \<le> arctan x"
    using summable_Leibniz'(2) [OF zero pos mono, of n] s by (simp add: a_def)
  show "arctan x \<le> (\<Sum>i<2 * n + 1. (- 1) ^ i * (1 / real (i * 2 + 1) * x ^ (i * 2 + 1)))"
    using summable_Leibniz'(4) [OF zero pos mono, of n] s by (simp add: a_def)
qed

lemma arctan_fifth_upper:
  "arctan (1 / 5) \<le> (\<Sum>i<11. (- 1) ^ i * (1 / real (i * 2 + 1) * (1 / 5) ^ (i * 2 + 1)))"
  using arctan_partial_sums(2) [of "1 / 5" 5] by simp

lemma arctan_239_lower:
  "(\<Sum>i<4. (- 1) ^ i * (1 / real (i * 2 + 1) * (1 / 239) ^ (i * 2 + 1))) \<le> arctan (1 / 239)"
  using arctan_partial_sums(1) [of "1 / 239" 2] by simp

lemma sum_fifth:
  "(\<Sum>i<11. (- 1) ^ i * (1 / real (i * 2 + 1) * (1 / 5) ^ (i * 2 + 1)))
     \<le> (19739555984988076189 / 100000000000000000000 :: real)"
  by (simp add: eval_nat_numeral)

lemma sum_239:
  "(418407600207472386 / 100000000000000000000 :: real)
     \<le> (\<Sum>i<4. (- 1) ^ i * (1 / real (i * 2 + 1) * (1 / 239) ^ (i * 2 + 1)))"
  by (simp add: eval_nat_numeral)

lemma pi_upper: "pi \<le> 3141592653589794 / 1000000000000000"
proof -
  have "pi = 16 * arctan (1 / 5) - 4 * arctan (1 / 239)"
    using machin by simp
  moreover have "arctan (1 / 5) \<le> 19739555984988076189 / 100000000000000000000"
    using arctan_fifth_upper sum_fifth by (rule order_trans)
  moreover have "418407600207472386 / 100000000000000000000 \<le> arctan (1 / 239)"
    using sum_239 arctan_239_lower by (rule order_trans)
  ultimately show ?thesis by linarith
qed

lemma pi_le_180_Deg2Rad: "pi \<le> 180 * m_Deg2Rad"
  using pi_upper by (simp add: m_Deg2Rad_def)

lemma atan2_range: "- pi < atan2 y x \<and> atan2 y x \<le> pi"
proof -
  have a: "- (pi / 2) < arctan (y / x)" "arctan (y / x) < pi / 2"
    by (rule arctan_lbound, rule arctan_ubound)
  have b: "arctan (y / x) \<le> 0" if "x < 0" "0 \<le> y"
  proof -
    have "y / x \<le> 0" using that by (simp add: divide_nonneg_neg)
    then show ?thesis using arctan_le_zero_iff by blast
  qed
  have c: "0 < arctan (y / x)" if "x < 0" "y < 0"
  proof -
    have "0 < y / x" using that by (simp add: divide_neg_neg)
    then show ?thesis by (simp add: zero_less_arctan_iff)
  qed
  have p: "0 < pi" by simp
  show ?thesis
    unfolding atan2_def using a b c p by (auto simp: not_less)
qed

lemma fmod_360_range:
  assumes "0 \<le> v"
  shows "0 \<le> fmod v 360 \<and> fmod v 360 < 360"
proof -
  have "fmod v 360 = v - 360 * of_int \<lfloor>v / 360\<rfloor>"
    using assms by (simp add: fmod_def double_to_int_def)
  moreover have "of_int \<lfloor>v / 360\<rfloor> \<le> v / 360" "v / 360 < of_int \<lfloor>v / 360\<rfloor> + 1"
    by linarith+
  ultimately show ?thesis by (simp add: field_simps)
qed

lemma SphericalProjection_longitude:
  "- 180 \<le> m_Longitude (SphericalProjection P dAzimuth dDistance)
   \<and> m_Longitude (SphericalProjection P dAzimuth dDistance) < 180"
proof -
  define t where "t = atan2 (sin (dAzimuth * m_Deg2Rad) * sin (dDistance / m_Radius)
      * cos (m_Deg2Rad * m_Latitude P))
    (cos (dDistance / m_Radius) - sin (m_Deg2Rad * m_Latitude P)
      * sin (arcsin (sin (m_Deg2Rad * m_Latitude P) * cos (dDistance / m_Radius)
           + cos (m_Deg2Rad * m_Latitude P) * sin (dDistance / m_Radius)
             * cos (dAzimuth * m_Deg2Rad))))"
  have lon: "m_Longitude (SphericalProjection P dAzimuth dDistance)
      = fmod (t / m_Deg2Rad + 180) 360 - 180"
    by (simp add: SphericalProjection_def Let_def t_def)
  have d: "0 < m_Deg2Rad" by (simp add: m_Deg2Rad_def)
  have "- pi < t"
    unfolding t_def using atan2_range by blast
  then have "- (180 * m_Deg2Rad) < t"
    using pi_le_180_Deg2Rad by linarith
  then have "- 180 < t / m_Deg2Rad"
    using d by (simp add: field_simps)
  then have "0 \<le> t / m_Deg2Rad + 180" by simp
  from fmod_360_range [OF this] show ?thesis
    unfolding lon by simp
qed

lemma fmod_200: "fmod 200 360 = 200"
  by (simp add: fmod_def double_to_int_def)

lemma fmod_0: "fmod 0 360 = 0"
  by (simp add: fmod_def double_to_int_def)

lemma VincentyProjection_stays:
  "VincentyProjection \<lparr>m_Latitude = 0, m_Longitude = 200\<rparr> 0 0
     = Some \<lparr>m_Latitude = 0, m_Longitude = 200\<rparr>"
proof -
  have d: "m_Deg2Rad \<noteq> 0" by (simp add: m_Deg2Rad_def)
  have r: "0 < 1 - 1 / m_fInv m_Ellipsoid" by (simp add: m_Ellipsoid_def)
  have l: "VincentyProjection_loop 0 b0 a b 0 0 = Some 0" for b0 a b
    by (subst VincentyProjection_loop.simps) (simp add: VincentyProjection_body_def EPSILON_def)
  show ?thesis
    unfolding VincentyProjection_def Let_def
    using d r by (simp add: l atan2_def fmod_200 fmod_0)
qed

lemma toupper_N: "toupper (CHR ''N'') = CHR ''N''"
  by (simp add: toupper_def)

lemma N_in_table: "string_find m_strZoneLetters (CHR ''N'') \<noteq> None"
  by (simp add: string_find_None m_strZoneLetters_def)

lemma ConvertUTM_equator:
  "ConvertUTM this iZone (CHR ''N'') dEasting 0 =
     (let a = m_a m_Ellipsoid;
          flat = 1 / m_fInv m_Ellipsoid;
          ecc2 = 2 * flat - flat * flat;
          ecc12 = ecc2 / (1 - ecc2);
          D = (dEasting - 500000) / (a * 0.9996);
          dLongitude = D - (1 + ecc12) * D * D * D / 6
             + (5 - 2 * ecc12 - 3 * ecc12 * ecc12 + 8 * ecc12) * D * D * D * D * D / 120
      in (True, this\<lparr>m_Latitude := 0,
                      m_Longitude := ((of_int (iZone - 1) * 6 - 180 + 3) * m_Deg2Rad + dLongitude)
                                       / m_Deg2Rad\<rparr>))"
  unfolding ConvertUTM_def Let_def toupper_N
  using N_in_table by simp

lemma equator_offset:
  fixes e :: real
  defines "e \<equiv> 2 * (1 / 298.257223563) - 1 / 298.257223563 * (1 / 298.257223563)"
  defines "D \<equiv> (840000 - 500000) / (6378137 * 0.9996)"
  shows "3 * m_Deg2Rad < D - (1 + e / (1 - e)) * D * D * D / 6
             + (5 - 2 * (e / (1 - e)) - 3 * (e / (1 - e)) * (e / (1 - e)) + 8 * (e / (1 - e)))
               * D * D * D * D * D / 120"
  unfolding e_def D_def m_Deg2Rad_def by simp

lemma ConvertUTM_zone_60:
  "180 < m_Longitude (snd (ConvertUTM this 60 (CHR ''N'') 840000 0))"
proof -
  define L :: real where "L = (let e = 2 * (1 / 298.257223563) - 1 / 298.257223563 * (1 / 298.257223563);
       D = (840000 - 500000) / (6378137 * 0.9996)
     in D - (1 + e / (1 - e)) * D * D * D / 6
             + (5 - 2 * (e / (1 - e)) - 3 * (e / (1 - e)) * (e / (1 - e)) + 8 * (e / (1 - e)))
               * D * D * D * D * D / 120)"
  have L: "3 * m_Deg2Rad < L" unfolding L_def Let_def by (rule equator_offset)
  have d: "0 < m_Deg2Rad" by (simp add: m_Deg2Rad_def)
  have "m_Longitude (snd (ConvertUTM this 60 (CHR ''N'') 840000 0))
     = (177 * m_Deg2Rad + L) / m_Deg2Rad"
    unfolding ConvertUTM_equator Let_def L_def m_Ellipsoid_def by simp
  moreover have "180 < (177 * m_Deg2Rad + L) / m_Deg2Rad"
    using L d by (simp add: field_simps)
  ultimately show ?thesis by simp
qed

text \<open>
  C4 at two inputs. \<open>VincentyProjection\<close> reduces its longitude with \<open>fmod x 360\<close> only:
  from the point of latitude 0 and longitude 200, with distance 0, it returns longitude
  200. \<open>ConvertUTM\<close> does not reduce its longitude: for zone 60, letter \<open>N\<close>, easting
  840000 and northing 0 the longitude is above 180. Neither lies in \<open>[-180, 180)\<close>, where
  \<open>SphericalProjection_longitude\<close> shows the longitude of \<open>SphericalProjection\<close> for every
  input.
\<close>

theorem longitude_not_normalized:
  "VincentyProjection \<lparr>m_Latitude = 0, m_Longitude = 200\<rparr> 0 0
     = Some \<lparr>m_Latitude = 0, m_Longitude = 200\<rparr>
   \<and> 180 < m_Longitude (snd (ConvertUTM \<lparr>m_Latitude = 0, m_Longitude = 0\<rparr>
                                  60 (CHR ''N'') 840000 0))"
  using VincentyProjection_stays ConvertUTM_zone_60 by simp

end
